theory Spec2Isabelle
  imports Complex_Main
begin

section \<open>Python values\<close>

text \<open>
  A Python \<open>str\<close> is a sequence of Unicode code points, so texts and language codes are
  lists of naturals; \<open>lit\<close> turns an ASCII literal into that form.  A number (\<open>PNum\<close>) is
  a float or an int that a double holds, modelled by a real: no rounding, no NaN, and no
  int so large that \<open>float\<close> overflows.  An exception is a value: its class and its
  message (\<open>str(e)\<close>).  \<open>ConfigurationError\<close> is the class named by the specification;
  no function of the source constructs it.
\<close>

type_synonym pystr = "nat list"

definition lit :: "string \<Rightarrow> pystr" where
  "lit s = map of_char s"

datatype exc_class =
    TypeError | AttributeError | ValueError | IndexError | NameError
  | NotFittedError | ConfigurationError | LibraryError

type_synonym exn = "exc_class \<times> pystr"

datatype pyval =
    PNone
  | PBool bool
  | PNum real
  | PStr pystr
  | PList "pyval list"
  | PDict "(pystr \<times> pyval) list"

type_synonym pydict = "(pystr \<times> pyval) list"

text \<open>\<open>d.get(key, default)\<close> on a dictionary kept as an association list.\<close>

definition dict_get :: "pydict \<Rightarrow> pystr \<Rightarrow> pyval \<Rightarrow> pyval" where
  "dict_get d k dflt = (case map_of d k of None \<Rightarrow> dflt | Some v \<Rightarrow> v)"

text \<open>
  \<open>xs[start:stop]\<close>: a negative bound counts from the end, and both bounds are clipped
  to the sequence.  \<open>xs[:k]\<close> is \<open>py_slice xs 0 k\<close>.
\<close>

definition py_slice :: "'a list \<Rightarrow> int \<Rightarrow> int \<Rightarrow> 'a list" where
  "py_slice xs start stop =
     (let n = int (length xs);
          lo = (if start < 0 then max 0 (start + n) else min start n);
          hi = (if stop < 0 then max 0 (stop + n) else min stop n)
      in take (nat (hi - lo)) (drop (nat lo) xs))"

text \<open>\<open>xs[i]\<close>: a negative index counts from the end; out of range raises IndexError.\<close>

definition py_index :: "'a list \<Rightarrow> int \<Rightarrow> exn + 'a" where
  "py_index xs i =
     (let n = int (length xs) in
      if 0 \<le> i \<and> i < n then Inr (xs ! nat i)
      else if - n \<le> i \<and> i < 0 then Inr (xs ! nat (n + i))
      else Inl (IndexError, lit ''list index out of range''))"

text \<open>\<open>s.replace(old, new)\<close>: every non-overlapping occurrence, left to right.\<close>

function py_replace :: "'a list \<Rightarrow> 'a list \<Rightarrow> 'a list \<Rightarrow> 'a list" where
  "py_replace old new [] = (if old = [] then new else [])"
| "py_replace old new (c # cs) =
     (if old = [] then new @ c # py_replace old new cs
      else if take (length old) (c # cs) = old
           then new @ py_replace old new (drop (length old) (c # cs))
      else c # py_replace old new cs)"
  by pat_completeness auto
termination
  by (relation "measure (\<lambda>(old, new, s). length s)") auto

section \<open>Chunking: \<open>RAGPipeline._chunk_text\<close> (rag_database.py)\<close>

text \<open>
  The \<open>while start < len(text)\<close> loop of \<open>_chunk_text\<close>, with its three variables.
  The loop has no other exit, so a run that never leaves it is the value \<open>None\<close>.
  (Memory is taken as unbounded; on a machine the list of chunks grows until Python
  raises MemoryError, and still no list of chunks is returned.)
\<close>

partial_function (option) chunk_loop ::
  "int \<Rightarrow> int \<Rightarrow> 'a list \<Rightarrow> int \<Rightarrow> 'a list list \<Rightarrow> 'a list list option" where
  "chunk_loop chunk_size chunk_overlap text start chunks =
     (if start < int (length text) then
        (let stop = min (start + chunk_size) (int (length text));
             chunk = py_slice text start stop
         in chunk_loop chunk_size chunk_overlap text (stop - chunk_overlap) (chunks @ [chunk]))
      else Some chunks)"

section \<open>The embedding engine: \<open>MultilingualEmbeddingEngine\<close> (embedding_engine.py)\<close>

text \<open>
  Outside the repository: the FlagEmbedding model (\<open>flag_model\<close> is \<open>None\<close> when it did
  not load, otherwise its \<open>encode\<close> on one text, which may raise) and SHA-256 of
  \<open>hashlib\<close> (the bytes of the digest of the encoded text).
\<close>

type_synonym vec = "real list"

record multilingual_embedding_engine =
  flag_model :: "(pystr \<Rightarrow> exn + vec) option"
  sha256 :: "pystr \<Rightarrow> nat list"

text \<open>
  \<open>_fallback_embed\<close>: the bytes of the digest over 255, divided by their norm plus
  \<open>1e-8\<close>, then padded with zeros or cut to 384 entries.
\<close>

definition fallback_embed :: "multilingual_embedding_engine \<Rightarrow> pystr \<Rightarrow> vec" where
  "fallback_embed self text =
     (let scaled = map (\<lambda>b. real b / 255) (sha256 self text);
          norm = sqrt (sum_list (map (\<lambda>x. x\<^sup>2) scaled));
          embedding = map (\<lambda>x. x / (norm + 1 / 100000000)) scaled
      in if length embedding < 384 then embedding @ replicate (384 - length embedding) 0
         else take 384 embedding)"

text \<open>
  \<open>embed_text\<close>: the model's vector, and the fallback when the model is not loaded or
  raises.  It never raises itself.
\<close>

definition embed_text :: "multilingual_embedding_engine \<Rightarrow> pystr \<Rightarrow> vec" where
  "embed_text self text =
     (case flag_model self of
        None \<Rightarrow> fallback_embed self text
      | Some encode \<Rightarrow>
          (case encode text of
             Inl e \<Rightarrow> fallback_embed self text
           | Inr embedding \<Rightarrow> embedding))"

section \<open>The FAISS index\<close>

text \<open>
  FAISS is a library outside the repository.  Its \<open>IndexFlatL2\<close> is modelled from the
  library's documentation: the index keeps the vectors it was given, all of one
  dimension, and \<open>search\<close> answers with the \<open>k\<close> stored vectors nearest to the query, each
  with its position and its squared Euclidean distance to the query, nearest first; when
  fewer than \<open>k\<close> vectors are stored the answer is filled up with position \<open>-1\<close> and the
  largest float.  (Equal distances are listed in stored order here; the library leaves
  their order open.)
\<close>

definition squared_l2 :: "vec \<Rightarrow> vec \<Rightarrow> real" where
  "squared_l2 a b = sum_list (map2 (\<lambda>x y. (x - y)\<^sup>2) a b)"

text \<open>The Euclidean distance of two embeddings, as the specification words it.\<close>

definition l2_distance :: "vec \<Rightarrow> vec \<Rightarrow> real" where
  "l2_distance a b = sqrt (squared_l2 a b)"

record faiss_index =
  index_d :: nat
  index_xb :: "vec list"

definition FLT_MAX :: real where
  "FLT_MAX = (2 - 1 / 2 ^ 23) * 2 ^ 127"

text \<open>
  \<open>np.array(self.embeddings).astype(np.float32)\<close>, \<open>IndexFlatL2(dimension)\<close> and
  \<open>index.add\<close>: the embeddings must have one length.
\<close>

definition faiss_build :: "vec list \<Rightarrow> exn + faiss_index" where
  "faiss_build embs =
     (case embs of
        [] \<Rightarrow> Inl (IndexError, lit ''tuple index out of range'')
      | e # rest \<Rightarrow>
          if list_all (\<lambda>x. length x = length e) rest
          then Inr \<lparr>index_d = length e, index_xb = embs\<rparr>
          else Inl (ValueError, lit ''inhomogeneous shape''))"

text \<open>\<open>index.search\<close> on one query: the pairs of \<open>zip(indices[0], distances[0])\<close>.\<close>

definition faiss_search :: "faiss_index \<Rightarrow> vec \<Rightarrow> int \<Rightarrow> exn + (int \<times> real) list" where
  "faiss_search ix q k =
     (if length q \<noteq> index_d ix \<or> k \<le> 0 then Inl (LibraryError, lit ''assertion failed'')
      else
        Inr (take (nat k)
               (sort_key snd
                  (zip (map int [0..<length (index_xb ix)])
                       (map (squared_l2 q) (index_xb ix))))
             @ replicate (nat k - length (index_xb ix)) (- 1, FLT_MAX)))"

section \<open>The vector database: \<open>VectorDatabase\<close> (rag_database.py)\<close>

text \<open>The metadata dictionary of a document (its wall-clock timestamp is left out).\<close>

record doc_meta =
  meta_id :: nat
  meta_type :: pystr
  meta_source :: pystr
  meta_length :: nat
  meta_metadata :: pydict

record vector_database =
  use_faiss :: bool
  documents :: "pystr list"
  embeddings :: "vec list"
  index :: "faiss_index option"
  metadata :: "doc_meta list"

record search_result =
  res_id :: int
  res_text :: pystr
  res_full_text :: pystr
  res_similarity :: real
  res_metadata :: doc_meta

text \<open>\<open>__init__\<close>: \<open>use_faiss\<close> records whether \<open>import faiss\<close> succeeded.\<close>

definition VectorDatabase_init :: "bool \<Rightarrow> vector_database" where
  "VectorDatabase_init faiss_importable =
     \<lparr>use_faiss = faiss_importable, documents = [], embeddings = [], index = None,
      metadata = []\<rparr>"

text \<open>
  \<open>_build_index\<close>.  When FAISS raises, \<open>use_faiss\<close> is switched off for good, and the
  index is never consulted again.
\<close>

definition build_index :: "vector_database \<Rightarrow> vector_database" where
  "build_index db =
     (if embeddings db = [] then db
      else if use_faiss db then
        (case faiss_build (embeddings db) of
           Inl e \<Rightarrow> db\<lparr>use_faiss := False\<rparr>
         | Inr ix \<Rightarrow> db\<lparr>index := Some ix\<rparr>)
      else db\<lparr>index := None\<rparr>)"

text \<open>
  \<open>add_document\<close>: the document id.  (The \<open>except\<close> clause, which returns \<open>None\<close>, has no
  branch here: \<open>embed_text\<close> does not raise and \<open>_build_index\<close> catches what FAISS raises.)
\<close>

definition add_document ::
  "multilingual_embedding_engine \<Rightarrow> vector_database \<Rightarrow> pystr \<Rightarrow> pystr \<Rightarrow> pystr \<Rightarrow> pydict option
     \<Rightarrow> nat option \<times> vector_database" where
  "add_document ext db text doc_type source md =
     (let embedding = embed_text ext text;
          doc_id = length (documents db);
          doc_metadata = \<lparr>meta_id = doc_id, meta_type = doc_type, meta_source = source,
             meta_length = length text,
             meta_metadata = (case md of None \<Rightarrow> [] | Some m \<Rightarrow> m)\<rparr>;
          db1 = db\<lparr>documents := documents db @ [text],
                   embeddings := embeddings db @ [embedding],
                   metadata := metadata db @ [doc_metadata]\<rparr>
      in (Some doc_id, build_index db1))"

text \<open>\<open>doc_type_filter and doc_meta['type'] != doc_type_filter\<close>.\<close>

definition filtered_out :: "pystr option \<Rightarrow> doc_meta \<Rightarrow> bool" where
  "filtered_out doc_type_filter doc_meta =
     (case doc_type_filter of
        None \<Rightarrow> False
      | Some t \<Rightarrow> t \<noteq> [] \<and> meta_type doc_meta \<noteq> t)"

text \<open>\<open>np.dot\<close> of two one-dimensional arrays; it raises when their lengths differ.\<close>

definition np_dot :: "vec \<Rightarrow> vec \<Rightarrow> exn + real" where
  "np_dot a b =
     (if length a = length b then Inr (sum_list (map2 (*) a b))
      else Inl (ValueError, lit ''shapes not aligned''))"

text \<open>The first loop of \<open>_simple_search\<close>, over \<open>enumerate(self.embeddings)\<close> from \<open>i\<close> on.\<close>

fun score_loop ::
  "vector_database \<Rightarrow> vec \<Rightarrow> pystr option \<Rightarrow> nat \<Rightarrow> vec list \<Rightarrow> (nat \<times> real) list
     \<Rightarrow> exn + (nat \<times> real) list" where
  "score_loop db q flt i [] scores = Inr scores"
| "score_loop db q flt i (doc_emb # rest) scores =
     (case np_dot q doc_emb of
        Inl e \<Rightarrow> Inl e
      | Inr similarity \<Rightarrow>
          (case py_index (metadata db) (int i) of
             Inl e \<Rightarrow> Inl e
           | Inr doc_meta \<Rightarrow>
               if filtered_out flt doc_meta then score_loop db q flt (Suc i) rest scores
               else score_loop db q flt (Suc i) rest (scores @ [(i, similarity)])))"

text \<open>The second loop of \<open>_simple_search\<close>, building the result dictionaries.\<close>

fun simple_results ::
  "vector_database \<Rightarrow> (nat \<times> real) list \<Rightarrow> exn + search_result list" where
  "simple_results db [] = Inr []"
| "simple_results db ((idx, score) # rest) =
     (case py_index (metadata db) (int idx) of
        Inl e \<Rightarrow> Inl e
      | Inr doc_meta \<Rightarrow>
          (case py_index (documents db) (int idx) of
             Inl e \<Rightarrow> Inl e
           | Inr doc \<Rightarrow>
               (case simple_results db rest of
                  Inl e \<Rightarrow> Inl e
                | Inr rs \<Rightarrow>
                    Inr (\<lparr>res_id = int idx, res_text = py_slice doc 0 500,
                          res_full_text = doc, res_similarity = max 0 score,
                          res_metadata = doc_meta\<rparr> # rs))))"

text \<open>
  \<open>_simple_search\<close>.  \<open>scores.sort(key=\<dots>, reverse=True)\<close> is stable: equal scores
  keep their insertion order.
\<close>

definition simple_search ::
  "vector_database \<Rightarrow> vec \<Rightarrow> int \<Rightarrow> pystr option \<Rightarrow> exn + search_result list" where
  "simple_search db query_embedding top_k doc_type_filter =
     (case score_loop db query_embedding doc_type_filter 0 (embeddings db) [] of
        Inl e \<Rightarrow> Inl e
      | Inr scores \<Rightarrow>
          simple_results db (py_slice (sort_key (\<lambda>x. - snd x) scores) 0 top_k))"

text \<open>The loop of the FAISS branch of \<open>search\<close> over \<open>zip(indices[0], distances[0])\<close>.\<close>

fun faiss_results ::
  "vector_database \<Rightarrow> pystr option \<Rightarrow> (int \<times> real) list \<Rightarrow> exn + search_result list" where
  "faiss_results db flt [] = Inr []"
| "faiss_results db flt ((idx, distance) # rest) =
     (if idx < int (length (documents db)) then
        (case py_index (metadata db) idx of
           Inl e \<Rightarrow> Inl e
         | Inr doc_meta \<Rightarrow>
             if filtered_out flt doc_meta then faiss_results db flt rest
             else
               (case py_index (documents db) idx of
                  Inl e \<Rightarrow> Inl e
                | Inr doc \<Rightarrow>
                    (case faiss_results db flt rest of
                       Inl e \<Rightarrow> Inl e
                     | Inr rs \<Rightarrow>
                         Inr (\<lparr>res_id = idx, res_text = py_slice doc 0 500,
                               res_full_text = doc, res_similarity = 1 / (1 + distance),
                               res_metadata = doc_meta\<rparr> # rs))))
      else faiss_results db flt rest)"

text \<open>\<open>search\<close>: every exception inside is caught and turned into the empty list.\<close>

definition search ::
  "multilingual_embedding_engine \<Rightarrow> vector_database \<Rightarrow> pystr \<Rightarrow> int \<Rightarrow> pystr option
     \<Rightarrow> search_result list" where
  "search ext db query top_k doc_type_filter =
     (if embeddings db = [] then []
      else
        (let query_embedding = embed_text ext query in
         case (use_faiss db, index db) of
           (True, Some ix) \<Rightarrow>
             (case faiss_search ix query_embedding
                     (min (top_k * 2) (int (length (embeddings db)))) of
                Inl e \<Rightarrow> []
              | Inr hits \<Rightarrow>
                  (case faiss_results db doc_type_filter hits of
                     Inl e \<Rightarrow> []
                   | Inr results \<Rightarrow> py_slice results 0 top_k))
         | _ \<Rightarrow>
             (case simple_search db query_embedding top_k doc_type_filter of
                Inl e \<Rightarrow> []
              | Inr results \<Rightarrow> results)))"

section \<open>The retrieval pipeline: \<open>RAGPipeline\<close> (rag_database.py)\<close>

record rag_state =
  vector_db :: vector_database
  chunk_size :: int
  chunk_overlap :: int

definition RAGPipeline_init :: "bool \<Rightarrow> rag_state" where
  "RAGPipeline_init faiss_importable =
     \<lparr>vector_db = VectorDatabase_init faiss_importable, chunk_size = 500, chunk_overlap = 50\<rparr>"

definition chunk_text :: "rag_state \<Rightarrow> pystr \<Rightarrow> pystr list option" where
  "chunk_text self text = chunk_loop (chunk_size self) (chunk_overlap self) text 0 []"

text \<open>
  The loop of \<open>add_ehr_document\<close> over \<open>enumerate(chunks)\<close>: each chunk is added with its
  position and the total, and the successful additions are counted.
\<close>

fun add_chunks ::
  "multilingual_embedding_engine \<Rightarrow> vector_database \<Rightarrow> pystr \<Rightarrow> pystr \<Rightarrow> nat \<Rightarrow> nat \<Rightarrow> pystr list \<Rightarrow> nat
     \<Rightarrow> nat \<times> vector_database" where
  "add_chunks ext db patient_id source total_chunks i [] count = (count, db)"
| "add_chunks ext db patient_id source total_chunks i (chunk # rest) count =
     (case add_document ext db chunk (lit ''ehr'') source
             (Some [(lit ''patient_id'', PStr patient_id),
                    (lit ''chunk_index'', PNum (real i)),
                    (lit ''total_chunks'', PNum (real total_chunks))]) of
        (doc_id, db') \<Rightarrow>
          add_chunks ext db' patient_id source total_chunks (Suc i) rest
            (if doc_id \<noteq> None then count + 1 else count))"

definition add_ehr_document ::
  "multilingual_embedding_engine \<Rightarrow> rag_state \<Rightarrow> pystr \<Rightarrow> pystr \<Rightarrow> pystr
     \<Rightarrow> (nat \<times> rag_state) option" where
  "add_ehr_document ext self document_text patient_id source =
     (case chunk_text self document_text of
        None \<Rightarrow> None
      | Some chunks \<Rightarrow>
          (case add_chunks ext (vector_db self) patient_id source (length chunks) 0 chunks 0 of
             (count, db') \<Rightarrow> Some (count, self\<lparr>vector_db := db'\<rparr>)))"

text \<open>
  The reconstruction the specification describes: the chunks concatenated after the
  first \<open>overlap\<close> characters of every chunk but the first are removed.
\<close>

definition spec_reconstruct :: "nat \<Rightarrow> 'a list list \<Rightarrow> 'a list" where
  "spec_reconstruct overlap chunks =
     (case chunks of [] \<Rightarrow> [] | c # cs \<Rightarrow> c @ concat (map (drop overlap) cs))"

section \<open>Translation: \<open>MultilingualTranslator\<close> (apps/accessibility/services/translation_service.py)\<close>

definition dict_has :: "('k \<times> 'v) list \<Rightarrow> 'k \<Rightarrow> bool" where
  "dict_has d k = (map_of d k \<noteq> None)"

definition SUPPORTED_LANGUAGES :: "(pystr \<times> pystr) list" where
  "SUPPORTED_LANGUAGES =
     [(lit ''en'', lit ''English''), (lit ''hi'', lit ''Hindi''), (lit ''ta'', lit ''Tamil''),
      (lit ''te'', lit ''Telugu''), (lit ''kn'', lit ''Kannada''), (lit ''ml'', lit ''Malayalam''),
      (lit ''mr'', lit ''Marathi''), (lit ''gu'', lit ''Gujarati''), (lit ''bn'', lit ''Bengali''),
      (lit ''pa'', lit ''Punjabi''), (lit ''ur'', lit ''Urdu''), (lit ''or'', lit ''Odia''),
      (lit ''as'', lit ''Assamese'')]"

definition INDIC_CODES :: "(pystr \<times> pystr) list" where
  "INDIC_CODES =
     [(lit ''en'', lit ''eng_Latn''), (lit ''hi'', lit ''hin_Deva''), (lit ''ta'', lit ''tam_Taml''),
      (lit ''te'', lit ''tel_Telu''), (lit ''kn'', lit ''kan_Knda''), (lit ''ml'', lit ''mal_Mlym''),
      (lit ''mr'', lit ''mar_Deva''), (lit ''gu'', lit ''guj_Gujr''), (lit ''bn'', lit ''ben_Beng''),
      (lit ''pa'', lit ''pan_Guru''), (lit ''ur'', lit ''urd_Arab''), (lit ''or'', lit ''ory_Orya''),
      (lit ''as'', lit ''asm_Beng'')]"

text \<open>
  The translator object.  \<open>model_loaded\<close> is the truth of \<open>self.model and self.tokenizer\<close>
  after \<open>_init_model\<close>; \<open>indic_generate\<close> is the library chain of \<open>_translate_indic\<close>
  (tokenizer, \<open>generate\<close>, \<open>batch_decode\<close>, \<open>strip\<close>) applied to the tagged input text,
  which may raise.
\<close>

record multilingual_translator =
  model_loaded :: bool
  indic_generate :: "pystr \<Rightarrow> exn + pystr"

text \<open>
  \<open>_translate_indic\<close> catches every exception and returns the text then.  (The module never
  imports \<open>torch\<close>, so in the source as it stands the chain always raises.)
\<close>

definition translate_indic :: "multilingual_translator \<Rightarrow> pystr \<Rightarrow> pystr \<Rightarrow> pystr \<Rightarrow> pystr" where
  "translate_indic self text source_lang target_lang =
     (let source_code =
            (case map_of INDIC_CODES source_lang of None \<Rightarrow> lit ''eng_Latn'' | Some c \<Rightarrow> c);
          target_code =
            (case map_of INDIC_CODES target_lang of None \<Rightarrow> lit ''eng_Latn'' | Some c \<Rightarrow> c);
          input_text = source_code @ lit '' '' @ target_code @ lit '' '' @ text
      in case indic_generate self input_text of
           Inl e \<Rightarrow> text
         | Inr translated \<Rightarrow> translated)"

text \<open>The vocabulary of \<open>_fallback_translate\<close>, in the order the dictionaries are written.\<close>

definition medical_vocab :: "((pystr \<times> pystr) \<times> (pystr \<times> pystr) list) list" where
  "medical_vocab =
     [((lit ''en'', lit ''hi''),
       [(lit ''patient'', [0x930, 0x94b, 0x917, 0x940]),
        (lit ''blood'', [0x930, 0x915, 0x94d, 0x924]),
        (lit ''heart'', [0x926, 0x93f, 0x932]),
        (lit ''temperature'', [0x924, 0x93e, 0x92a, 0x92e, 0x93e, 0x928]),
        (lit ''fever'', [0x92c, 0x941, 0x916, 0x93e, 0x930]),
        (lit ''doctor'', [0x921, 0x949, 0x915, 0x94d, 0x91f, 0x930]),
        (lit ''hospital'', [0x905, 0x938, 0x94d, 0x92a, 0x924, 0x93e, 0x932]),
        (lit ''medication'', [0x926, 0x935, 0x93e])]),
      ((lit ''en'', lit ''ta''),
       [(lit ''patient'', [0xba8, 0xbcb, 0xbaf, 0xbbe, 0xbb3, 0xbbf]),
        (lit ''blood'', [0xb87, 0xbb0, 0xba4, 0xbcd, 0xba4, 0xbae, 0xbcd]),
        (lit ''heart'', [0xb87, 0xba4, 0xbaf, 0xbae, 0xbcd]),
        (lit ''temperature'', [0xbb5, 0xbc6, 0xbaa, 0xbcd, 0xbaa, 0xba8, 0xbbf, 0xbb2, 0xbc8]),
        (lit ''fever'', [0xb95, 0xbbe, 0xbaf, 0xbcd, 0xb9a, 0xbcd, 0xb9a, 0xbb2, 0xbcd]),
        (lit ''doctor'', [0xbae, 0xbb0, 0xbc1, 0xba4, 0xbcd, 0xba4, 0xbc1, 0xbb5, 0xbb0, 0xbcd]),
        (lit ''hospital'',
           [0xbae, 0xbb0, 0xbc1, 0xba4, 0xbcd, 0xba4, 0xbc1, 0xbb5, 0xbae, 0xba9, 0xbc8]),
        (lit ''medication'', [0xbae, 0xbb0, 0xbc1, 0xba8, 0xbcd, 0xba4, 0xbc1])])]"

definition fallback_translate :: "pystr \<Rightarrow> pystr \<Rightarrow> pystr \<Rightarrow> pystr" where
  "fallback_translate text source_lang target_lang =
     (case map_of medical_vocab (source_lang, target_lang) of
        Some vocab \<Rightarrow>
          fold (\<lambda>(eng_word, trans_word) result. py_replace eng_word trans_word result) vocab text
      | None \<Rightarrow> text)"

text \<open>
  \<open>translate\<close>.  Neither helper raises (the first catches everything, the second only
  substitutes), so the \<open>except\<close> clause of \<open>translate\<close> has no branch here.
\<close>

definition translate :: "multilingual_translator \<Rightarrow> pystr \<Rightarrow> pystr \<Rightarrow> pystr \<Rightarrow> pystr" where
  "translate self text source_lang target_lang =
     (if source_lang = target_lang then text
      else if \<not> dict_has SUPPORTED_LANGUAGES source_lang then text
      else if \<not> dict_has SUPPORTED_LANGUAGES target_lang then text
      else if model_loaded self then translate_indic self text source_lang target_lang
      else fallback_translate text source_lang target_lang)"

section \<open>Translation: \<open>MultilingualTranslator\<close> (ai_engine/src/translation_service.py)\<close>

definition LANGUAGE_CODES :: "(pystr \<times> pystr) list" where
  "LANGUAGE_CODES =
     [(lit ''hindi'', lit ''hin_Deva''), (lit ''tamil'', lit ''tam_Taml''),
      (lit ''telugu'', lit ''tel_Telu''), (lit ''kannada'', lit ''kan_Knda''),
      (lit ''malayalam'', lit ''mal_Mlym''), (lit ''marathi'', lit ''mar_Deva''),
      (lit ''gujarati'', lit ''guj_Gujr''), (lit ''bengali'', lit ''ben_Beng''),
      (lit ''punjabi'', lit ''pan_Guru''), (lit ''urdu'', lit ''urd_Arab''),
      (lit ''english'', lit ''eng_Latn''), (lit ''odia'', lit ''ory_Orya''),
      (lit ''assamese'', lit ''asm_Beng''), (lit ''kashmiri'', lit ''kas_Arab'')]"

text \<open>
  What lies outside the repository: whether loading the tokenizer and the model succeeds,
  and the chain from preprocessing to postprocessing on a text and the two script codes,
  which may raise.
\<close>

record translation_backend =
  load_ok :: bool
  run_model :: "pystr \<Rightarrow> pystr \<Rightarrow> pystr \<Rightarrow> exn + pystr"

text \<open>\<open>initialize\<close>: its result and the new value of \<open>self.initialized\<close>.\<close>

definition initialize :: "translation_backend \<Rightarrow> bool \<Rightarrow> bool \<times> bool" where
  "initialize backend initialized =
     (if initialized then (True, True)
      else if load_ok backend then (True, True)
      else (False, False))"

text \<open>
  \<open>translate\<close> of the second translator: the result (\<open>None\<close> as Python's \<open>None\<close>) and the
  new value of \<open>self.initialized\<close>.  \<open>str.lower\<close> is the parameter \<open>lower\<close>.
\<close>

definition translate_ai_engine ::
  "(pystr \<Rightarrow> pystr) \<Rightarrow> translation_backend \<Rightarrow> bool \<Rightarrow> pystr \<Rightarrow> pystr \<Rightarrow> pystr
     \<Rightarrow> pystr option \<times> bool" where
  "translate_ai_engine lower backend initialized text src_lang tgt_lang =
     (let (ok, initialized') =
            (if \<not> initialized then initialize backend initialized else (True, initialized))
      in if \<not> ok then (None, initialized')
         else
           (let src_code = map_of LANGUAGE_CODES (lower src_lang);
                tgt_code = map_of LANGUAGE_CODES (lower tgt_lang)
            in if src_code = None \<or> src_code = Some [] \<or> tgt_code = None \<or> tgt_code = Some []
               then (None, initialized')
               else if lower src_lang = lower tgt_lang then (Some text, initialized')
               else
                 (case run_model backend text (the src_code) (the tgt_code) of
                    Inl e \<Rightarrow> (None, initialized')
                  | Inr result \<Rightarrow> (Some result, initialized'))))"

text \<open>\<open>str.lower\<close> on ASCII text: the letters A to Z are moved to a to z.\<close>

definition ascii_lower :: "pystr \<Rightarrow> pystr" where
  "ascii_lower s = map (\<lambda>c. if 65 \<le> c \<and> c \<le> 90 then c + 32 else c) s"

section \<open>Explanations: \<open>TriageExplainer\<close> (ai_engine/src/explainability.py)\<close>

text \<open>
  What \<open>explainer.shap_values\<close> returns: a list of arrays (one per class) or one array,
  each array a list of rows.
\<close>

datatype shap_values = ClassList "real list list list" | Array "real list list"

text \<open>
  Outside the repository: the two files (\<open>None\<close> when \<open>os.path.exists\<close> is false,
  otherwise what \<open>joblib.load\<close> does), the SHAP constructors, \<open>shap_values\<close> and
  \<open>np.argsort\<close>.
\<close>

record ('m, 'e) explainer_env =
  model_file :: "(exn + 'm) option"
  feature_file :: "(exn + pystr list) option"
  has_get_booster :: "'m \<Rightarrow> bool"
  tree_explainer :: "'m \<Rightarrow> exn + 'e"
  generic_explainer :: "'m \<Rightarrow> exn + 'e"
  shap_values_of :: "'e \<Rightarrow> real list list \<Rightarrow> exn + shap_values"
  np_argsort :: "real list \<Rightarrow> int list"

record ('m, 'e) triage_explainer =
  risk_model :: "'m option"
  explainer :: "'e option"
  feature_names :: "pystr list option"

definition TriageExplainer_init :: "('m, 'e) triage_explainer" where
  "TriageExplainer_init = \<lparr>risk_model = None, explainer = None, feature_names = None\<rparr>"

text \<open>The last statement of \<open>load_explainer\<close>: the feature names are read when their file exists.\<close>

definition load_feature_names ::
  "('m, 'e) explainer_env \<Rightarrow> ('m, 'e) triage_explainer \<Rightarrow> exn option \<times> ('m, 'e) triage_explainer" where
  "load_feature_names env self =
     (case feature_file env of
        None \<Rightarrow> (None, self)
      | Some (Inl e) \<Rightarrow> (Some e, self)
      | Some (Inr names) \<Rightarrow> (None, self\<lparr>feature_names := Some names\<rparr>))"

text \<open>
  \<open>load_explainer\<close>: the exception that left it, if any, and the object as it is then.
  Nothing in it catches an exception.
\<close>

definition load_explainer ::
  "('m, 'e) explainer_env \<Rightarrow> ('m, 'e) triage_explainer \<Rightarrow> exn option \<times> ('m, 'e) triage_explainer" where
  "load_explainer env self =
     (if risk_model self = None then
        (case model_file env of
           None \<Rightarrow> load_feature_names env self
         | Some (Inl e) \<Rightarrow> (Some e, self)
         | Some (Inr m) \<Rightarrow>
             (let self1 = self\<lparr>risk_model := Some m\<rparr> in
              case (if has_get_booster env m then tree_explainer env m
                    else generic_explainer env m) of
                Inl e \<Rightarrow> (Some e, self1)
              | Inr ex \<Rightarrow> load_feature_names env (self1\<lparr>explainer := Some ex\<rparr>)))
      else (None, self))"

text \<open>The elementwise sum of rows; numpy raises when their lengths differ.\<close>

fun sum_rows :: "real list list \<Rightarrow> exn + real list" where
  "sum_rows [] = Inl (IndexError, lit ''invalid index to scalar variable'')"
| "sum_rows [r] = Inr r"
| "sum_rows (r # rs) =
     (case sum_rows rs of
        Inl e \<Rightarrow> Inl e
      | Inr acc \<Rightarrow>
          if length r = length acc then Inr (map2 (+) r acc)
          else Inl (ValueError, lit ''operands could not be broadcast together''))"

text \<open>The first rows of the class arrays, each with absolute values.\<close>

fun abs_first_rows :: "real list list list \<Rightarrow> exn + real list list" where
  "abs_first_rows [] = Inr []"
| "abs_first_rows (c # cs) =
     (case py_index c 0 of
        Inl e \<Rightarrow> Inl e
      | Inr row \<Rightarrow>
          (case abs_first_rows cs of
             Inl e \<Rightarrow> Inl e
           | Inr rows \<Rightarrow> Inr (map abs row # rows)))"

text \<open>\<open>np.sum\<close> over a list of arrays needs arrays of one shape.\<close>

definition same_shape :: "real list list list \<Rightarrow> bool" where
  "same_shape cs =
     (case cs of
        [] \<Rightarrow> True
      | c # rest \<Rightarrow> list_all (\<lambda>x. map length x = map length c) rest)"

text \<open>
  \<open>mean_abs_shap\<close>: for a list, row 0 of the sum over the classes of the absolute
  arrays; for one array, the absolute values of its row 0.
\<close>

definition mean_abs_shap :: "shap_values \<Rightarrow> exn + real list" where
  "mean_abs_shap sv =
     (case sv of
        ClassList cs \<Rightarrow>
          if \<not> same_shape cs
          then Inl (ValueError, lit ''inhomogeneous shape'')
          else (case abs_first_rows cs of Inl e \<Rightarrow> Inl e | Inr rows \<Rightarrow> sum_rows rows)
      | Array a \<Rightarrow>
          (case py_index a 0 of Inl e \<Rightarrow> Inl e | Inr row \<Rightarrow> Inr (map abs row)))"

text \<open>The loop over \<open>indices\<close> that builds \<open>top_features\<close>.\<close>

fun top_features_loop ::
  "pystr list \<Rightarrow> real list \<Rightarrow> int list \<Rightarrow> exn + (pystr \<times> real) list" where
  "top_features_loop names vals [] = Inr []"
| "top_features_loop names vals (idx # rest) =
     (case py_index names idx of
        Inl e \<Rightarrow> Inl e
      | Inr name \<Rightarrow>
          (case py_index vals idx of
             Inl e \<Rightarrow> Inl e
           | Inr v \<Rightarrow>
               (case top_features_loop names vals rest of
                  Inl e \<Rightarrow> Inl e
                | Inr fs \<Rightarrow> Inr ((name, v) # fs))))"

text \<open>
  \<open>explain_prediction\<close>.  The result dictionary is \<open>None\<close> when it is the empty \<open>{}\<close> and
  \<open>Some fs\<close> when it holds \<open>top_features\<close>; \<open>Inl\<close> is an exception reaching the caller.
\<close>

definition explain_prediction ::
  "('m, 'e) explainer_env \<Rightarrow> ('m, 'e) triage_explainer \<Rightarrow> real list list \<Rightarrow> int
     \<Rightarrow> (exn + (pystr \<times> real) list option) \<times> ('m, 'e) triage_explainer" where
  "explain_prediction env self X_transformed top_k =
     (case (if explainer self = None then load_explainer env self else (None, self)) of
        (Some e, self') \<Rightarrow> (Inl e, self')
      | (None, self') \<Rightarrow>
          (case explainer self' of
             None \<Rightarrow> (Inr None, self')
           | Some ex \<Rightarrow>
               (case shap_values_of env ex X_transformed of
                  Inl e \<Rightarrow> (Inr None, self')
                | Inr sv \<Rightarrow>
                    (case mean_abs_shap sv of
                       Inl e \<Rightarrow> (Inl e, self')
                     | Inr vals \<Rightarrow>
                         (case feature_names self' of
                            None \<Rightarrow> (Inr None, self')
                          | Some names \<Rightarrow>
                              if names \<noteq> [] \<and> length names = length vals then
                                (case top_features_loop names vals
                                        (py_slice (rev (np_argsort env vals)) 0 top_k) of
                                   Inl e \<Rightarrow> (Inl e, self')
                                 | Inr fs \<Rightarrow> (Inr (Some fs), self'))
                              else (Inr None, self'))))))"

section \<open>Preprocessing: \<open>TriagePreprocessor\<close> (ai_engine/src/preprocessing.py)\<close>

text \<open>
  The scikit-learn objects are outside the repository: \<open>new_pipeline\<close> is the unfitted
  \<open>ColumnTransformer\<close> of \<open>build_pipeline\<close>, \<open>sk_fit\<close> and \<open>sk_transform\<close> are its methods.
  A data frame is a list of rows.
\<close>

record 'p sklearn =
  new_pipeline :: 'p
  sk_fit :: "'p \<Rightarrow> pydict list \<Rightarrow> exn + 'p"
  sk_transform :: "'p \<Rightarrow> pydict list \<Rightarrow> exn + real list list"

record 'p triage_preprocessor =
  pipeline :: "'p option"

definition TriagePreprocessor_init :: "'p triage_preprocessor" where
  "TriagePreprocessor_init = \<lparr>pipeline = None\<rparr>"

definition build_pipeline :: "'p sklearn \<Rightarrow> 'p triage_preprocessor \<Rightarrow> 'p triage_preprocessor" where
  "build_pipeline sk self = self\<lparr>pipeline := Some (new_pipeline sk)\<rparr>"

text \<open>\<open>fit\<close> without labels: the exception, if any, and the object as it is then.\<close>

definition fit ::
  "'p sklearn \<Rightarrow> 'p triage_preprocessor \<Rightarrow> pydict list \<Rightarrow> exn option \<times> 'p triage_preprocessor" where
  "fit sk self X =
     (let self1 = (if pipeline self = None then build_pipeline sk self else self) in
      case sk_fit sk (the (pipeline self1)) X of
        Inl e \<Rightarrow> (Some e, self1)
      | Inr fitted \<Rightarrow> (None, self1\<lparr>pipeline := Some fitted\<rparr>))"

text \<open>
  \<open>transform\<close> is \<open>return self.pipeline.transform(X)\<close>: on \<open>None\<close> the attribute access
  raises AttributeError.
\<close>

definition transform ::
  "'p sklearn \<Rightarrow> 'p triage_preprocessor \<Rightarrow> pydict list \<Rightarrow> exn + real list list" where
  "transform sk self X =
     (case pipeline self of
        None \<Rightarrow>
          Inl (AttributeError,
               [39] @ lit ''NoneType'' @ [39] @ lit '' object has no attribute '' @ [39]
                 @ lit ''transform'' @ [39])
      | Some p \<Rightarrow> sk_transform sk p X)"

text \<open>The class of the exception a call ends with, if it ends with one.\<close>

definition raised_class :: "exn + 'a \<Rightarrow> exc_class option" where
  "raised_class r = (case r of Inl e \<Rightarrow> Some (fst e) | Inr v \<Rightarrow> None)"

section \<open>Risk prediction: \<open>XGBoostMedicalPredictor\<close> (xgboost_predictor.py)\<close>

text \<open>
  Outside the repository: the regressor (\<open>model.predict(X)[0]\<close> and
  \<open>model.feature_importances_\<close>, either may raise), \<open>np.argsort\<close>, and the parsing of a
  string by \<open>float\<close> (\<open>None\<close> when it raises ValueError).
\<close>

record xgboost_predictor =
  model_predict :: "real list \<Rightarrow> exn + real"
  model_feature_importances :: "exn + real list"
  argsort :: "real list \<Rightarrow> int list"
  float_of_str :: "pystr \<Rightarrow> real option"

definition feature_set :: "pystr list" where
  "feature_set =
     [lit ''age'', lit ''heart_rate'', lit ''systolic_bp'', lit ''diastolic_bp'',
      lit ''temperature'', lit ''spo2'', lit ''respiratory_rate'', lit ''glucose'',
      lit ''creatinine'', lit ''hemoglobin'', lit ''platelet_count'', lit ''white_blood_cells'',
      lit ''comorbidity_count'', lit ''medication_count'', lit ''previous_hospitalizations'',
      lit ''days_since_last_visit'', lit ''abnormal_lab_count'']"

record risk_result =
  risk_score :: real
  risk_level :: pystr
  top_risk_factors :: "(pystr \<times> real) list"
  confidence :: real
  result_method :: "pystr option"

text \<open>\<open>float(value)\<close>.\<close>

definition py_float :: "xgboost_predictor \<Rightarrow> pyval \<Rightarrow> exn + real" where
  "py_float self v =
     (case v of
        PNum r \<Rightarrow> Inr r
      | PBool b \<Rightarrow> Inr (if b then 1 else 0)
      | PStr s \<Rightarrow>
          (case float_of_str self s of
             None \<Rightarrow> Inl (ValueError, lit ''could not convert string to float'')
           | Some r \<Rightarrow> Inr r)
      | _ \<Rightarrow> Inl (TypeError, lit ''float() argument must be a string or a real number''))"

text \<open>The loop of \<open>prepare_features\<close>: a \<open>None\<close> value counts as 0.\<close>

fun prepare_loop :: "xgboost_predictor \<Rightarrow> pydict \<Rightarrow> pystr list \<Rightarrow> exn + real list" where
  "prepare_loop self patient_data [] = Inr []"
| "prepare_loop self patient_data (feature # rest) =
     (let value = dict_get patient_data feature (PNum 0);
          value' = (if value = PNone then PNum 0 else value)
      in case py_float self value' of
           Inl e \<Rightarrow> Inl e
         | Inr x \<Rightarrow>
             (case prepare_loop self patient_data rest of
                Inl e \<Rightarrow> Inl e
              | Inr xs \<Rightarrow> Inr (x # xs)))"

definition prepare_features :: "xgboost_predictor \<Rightarrow> pydict \<Rightarrow> exn + real list" where
  "prepare_features self patient_data = prepare_loop self patient_data feature_set"

definition classify_risk :: "real \<Rightarrow> pystr" where
  "classify_risk score =
     (if score < 0.25 then lit ''LOW''
      else if score < 0.50 then lit ''MEDIUM''
      else if score < 0.75 then lit ''HIGH''
      else lit ''CRITICAL'')"

text \<open>\<open>np.clip(x, 0, 1)\<close>.\<close>

definition np_clip01 :: "real \<Rightarrow> real" where
  "np_clip01 x = min (max x 0) 1"

text \<open>The loop of \<open>get_feature_importance\<close> over the top indices.\<close>

fun top_factors_loop :: "real list \<Rightarrow> int list \<Rightarrow> exn + (pystr \<times> real) list" where
  "top_factors_loop importances [] = Inr []"
| "top_factors_loop importances (idx # rest) =
     (if idx < int (length feature_set) then
        (case py_index feature_set idx of
           Inl e \<Rightarrow> Inl e
         | Inr name \<Rightarrow>
             (case py_index importances idx of
                Inl e \<Rightarrow> Inl e
              | Inr v \<Rightarrow>
                  (case top_factors_loop importances rest of
                     Inl e \<Rightarrow> Inl e
                   | Inr fs \<Rightarrow> Inr ((name, v) # fs))))
      else top_factors_loop importances rest)"

text \<open>
  \<open>get_feature_importance\<close>: \<open>np.argsort(importances)[-5:][::-1]\<close>, and the empty list
  on any exception.
\<close>

definition get_feature_importance :: "xgboost_predictor \<Rightarrow> (pystr \<times> real) list" where
  "get_feature_importance self =
     (case model_feature_importances self of
        Inl e \<Rightarrow> []
      | Inr importances \<Rightarrow>
          (let order = argsort self importances;
               top_indices = rev (py_slice order (- 5) (int (length order)))
           in case top_factors_loop importances top_indices of
                Inl e \<Rightarrow> []
              | Inr fs \<Rightarrow> fs))"

text \<open>
  A comparison \<open>value > c\<close> or \<open>value < c\<close> with a number: Python raises TypeError unless the
  value is a number (a bool counts as 0 or 1).
\<close>

definition py_num :: "pyval \<Rightarrow> exn + real" where
  "py_num v =
     (case v of
        PNum r \<Rightarrow> Inr r
      | PBool b \<Rightarrow> Inr (if b then 1 else 0)
      | _ \<Rightarrow> Inl (TypeError, lit ''comparison not supported between these instances''))"

text \<open>
  \<open>_fallback_risk\<close>.  The five rules are tried in the order of the source; the value of
  each field is compared as it is found in the dictionary.  (\<open>risk_percentage\<close>, a
  formatted copy of the score, is left out of the result.)
\<close>

definition fallback_risk :: "pydict \<Rightarrow> exn + risk_result" where
  "fallback_risk patient_data =
     (case py_num (dict_get patient_data (lit ''age'') (PNum 0)) of
        Inl e \<Rightarrow> Inl e
      | Inr age \<Rightarrow>
     (case py_num (dict_get patient_data (lit ''heart_rate'') (PNum 0)) of
        Inl e \<Rightarrow> Inl e
      | Inr hr \<Rightarrow>
     (case py_num (dict_get patient_data (lit ''spo2'') (PNum 100)) of
        Inl e \<Rightarrow> Inl e
      | Inr spo2 \<Rightarrow>
     (case py_num (dict_get patient_data (lit ''temperature'') (PNum 37)) of
        Inl e \<Rightarrow> Inl e
      | Inr temp \<Rightarrow>
     (case py_num (dict_get patient_data (lit ''comorbidity_count'') (PNum 0)) of
        Inl e \<Rightarrow> Inl e
      | Inr comorbidities \<Rightarrow>
          (let s1 = (if age > 65 then 0.15 else 0);
               f1 = (if age > 65 then [lit ''advanced_age''] else []);
               s2 = (if hr > 100 \<or> hr < 60 then s1 + 0.15 else s1);
               f2 = (if hr > 100 \<or> hr < 60 then f1 @ [lit ''abnormal_heart_rate''] else f1);
               s3 = (if spo2 < 95 then s2 + 0.20 else s2);
               f3 = (if spo2 < 95 then f2 @ [lit ''low_oxygen_saturation''] else f2);
               s4 = (if temp > 38 \<or> temp < 36 then s3 + 0.10 else s3);
               f4 = (if temp > 38 \<or> temp < 36 then f3 @ [lit ''fever_or_hypothermia''] else f3);
               s5 = (if comorbidities > 2 then s4 + 0.15 else s4);
               f5 = (if comorbidities > 2 then f4 @ [lit ''multiple_comorbidities''] else f4);
               score = np_clip01 s5
           in Inr \<lparr>risk_score = score,
                   risk_level = classify_risk score,
                   top_risk_factors = map (\<lambda>f. (f, 0.2)) f5,
                   confidence = (if score > 0.5 then score else 1 - score),
                   result_method = Some (lit ''fallback_rule_based'')\<rparr>))))))"

text \<open>
  \<open>predict_risk\<close>: any exception of the model path leads to \<open>_fallback_risk\<close>, whose own
  exceptions reach the caller.
\<close>

definition predict_risk :: "xgboost_predictor \<Rightarrow> pydict \<Rightarrow> exn + risk_result" where
  "predict_risk self patient_data =
     (case prepare_features self patient_data of
        Inl e \<Rightarrow> fallback_risk patient_data
      | Inr X \<Rightarrow>
          (case model_predict self X of
             Inl e \<Rightarrow> fallback_risk patient_data
           | Inr raw \<Rightarrow>
               (let score = np_clip01 raw in
                Inr \<lparr>risk_score = score,
                     risk_level = classify_risk score,
                     top_risk_factors = get_feature_importance self,
                     confidence = (if score > 0.5 then score else 1 - score),
                     result_method = None\<rparr>)))"

section \<open>The narrative engine: \<open>MistralMedicalEngine\<close> (mistral_engine.py)\<close>

text \<open>
  The two methods the orchestrator calls, as functions that may raise.
\<close>

record mistral =
  extract_from_text :: "pystr \<Rightarrow> pystr \<Rightarrow> exn + pydict"
  generate_explanation :: "real \<Rightarrow> pystr list \<Rightarrow> pydict \<Rightarrow> pystr \<Rightarrow> exn + pystr"

text \<open>
  The engine of the source over a chat client \<open>llm_extract\<close> (outside the repository).
  \<open>extract_from_text\<close> wraps the client call in \<open>try\<close> and returns a dictionary in every
  case, so \<open>llm_extract\<close> stands for the whole \<open>try\<close> statement.
  \<open>generate_explanation\<close> builds its prompt before its \<open>try\<close>; the prompt's field
  \<open>{patient_data.get('vital_signs', {{}})}\<close> evaluates the set display \<open>{{}}\<close> of an empty
  dictionary, which raises TypeError for every dictionary \<open>patient_data\<close>.
\<close>

definition MistralMedicalEngine :: "(pystr \<Rightarrow> pystr \<Rightarrow> pydict) \<Rightarrow> mistral" where
  "MistralMedicalEngine llm_extract =
     \<lparr>extract_from_text = (\<lambda>text language. Inr (llm_extract text language)),
      generate_explanation =
        (\<lambda>risk_score risk_factors patient_data language.
           Inl (TypeError, lit ''unhashable type: '' @ [39] @ lit ''dict'' @ [39]))\<rparr>"

section \<open>The orchestrator: \<open>UnifiedMedicalAIPipeline\<close> (unified_ai_pipeline.py)\<close>

text \<open>\<open>value.get(key, default)\<close> on any value: only a dictionary has the method.\<close>

definition py_get :: "pyval \<Rightarrow> pystr \<Rightarrow> pyval \<Rightarrow> exn + pyval" where
  "py_get v k dflt =
     (case v of
        PDict d \<Rightarrow> Inr (dict_get d k dflt)
      | _ \<Rightarrow> Inl (AttributeError, lit ''object has no attribute get''))"

text \<open>\<open>len(value)\<close>.\<close>

definition py_len :: "pyval \<Rightarrow> exn + nat" where
  "py_len v =
     (case v of
        PList xs \<Rightarrow> Inr (length xs)
      | PStr s \<Rightarrow> Inr (length s)
      | PDict d \<Rightarrow> Inr (length (remdups (map fst d)))
      | _ \<Rightarrow> Inl (TypeError, lit ''object has no len()''))"

text \<open>\<open>_prepare_patient_data\<close>, the entries evaluated in the order of the source.\<close>

definition prepare_patient_data :: "pydict \<Rightarrow> exn + pydict" where
  "prepare_patient_data extracted_data =
     (let vital_signs = dict_get extracted_data (lit ''vital_signs'') (PDict []) in
     (case py_get vital_signs (lit ''heart_rate'') (PNum 70) of
        Inl e \<Rightarrow> Inl e
      | Inr heart_rate \<Rightarrow>
     (case py_get vital_signs (lit ''systolic_bp'') (PNum 120) of
        Inl e \<Rightarrow> Inl e
      | Inr systolic_bp \<Rightarrow>
     (case py_get vital_signs (lit ''diastolic_bp'') (PNum 80) of
        Inl e \<Rightarrow> Inl e
      | Inr diastolic_bp \<Rightarrow>
     (case py_get vital_signs (lit ''temperature'') (PNum 37) of
        Inl e \<Rightarrow> Inl e
      | Inr temperature \<Rightarrow>
     (case py_get vital_signs (lit ''spo2'') (PNum 98) of
        Inl e \<Rightarrow> Inl e
      | Inr spo2 \<Rightarrow>
     (case py_get vital_signs (lit ''respiratory_rate'') (PNum 16) of
        Inl e \<Rightarrow> Inl e
      | Inr respiratory_rate \<Rightarrow>
     (case py_get vital_signs (lit ''glucose'') (PNum 100) of
        Inl e \<Rightarrow> Inl e
      | Inr glucose \<Rightarrow>
     (case py_len (dict_get extracted_data (lit ''medical_history'') (PList [])) of
        Inl e \<Rightarrow> Inl e
      | Inr comorbidity_count \<Rightarrow>
     (case py_len (dict_get extracted_data (lit ''current_medications'') (PList [])) of
        Inl e \<Rightarrow> Inl e
      | Inr medication_count \<Rightarrow>
          Inr [(lit ''age'', dict_get extracted_data (lit ''age'') (PNum 50)),
               (lit ''heart_rate'', heart_rate),
               (lit ''systolic_bp'', systolic_bp),
               (lit ''diastolic_bp'', diastolic_bp),
               (lit ''temperature'', temperature),
               (lit ''spo2'', spo2),
               (lit ''respiratory_rate'', respiratory_rate),
               (lit ''glucose'', glucose),
               (lit ''comorbidity_count'', PNum (real comorbidity_count)),
               (lit ''medication_count'', PNum (real medication_count)),
               (lit ''previous_hospitalizations'', PNum 0),
               (lit ''days_since_last_visit'', PNum 0),
               (lit ''abnormal_lab_count'', PNum 0)]))))))))))"

text \<open>
  The two shapes of the dictionary \<open>process_document\<close> returns: the success response
  (document type, patient id, chunks processed, extracted data, risk prediction,
  explanation, language) and the error response (error message, patient id).
\<close>

datatype response =
    Success pystr pystr nat pydict risk_result pystr pystr
  | Error pystr pystr

text \<open>The \<open>risk_prediction\<close> entry of a response, if it has one.\<close>

fun response_risk_prediction :: "response \<Rightarrow> risk_result option" where
  "response_risk_prediction (Success dt pid n ex risk expl lang) = Some risk"
| "response_risk_prediction (Error msg pid) = None"

record unified_pipeline =
  embedding_engine :: multilingual_embedding_engine
  mistral_engine :: mistral
  predictor :: xgboost_predictor
  rag_pipeline :: rag_state
  translator :: multilingual_translator

text \<open>
  \<open>process_document\<close>: the response and the pipeline as it is then, or \<open>None\<close> when the
  call never returns, which is when the chunking of \<open>add_ehr_document\<close> never returns.
  (Memory is taken as unbounded; on a machine that loop ends in MemoryError, which the
  \<open>except\<close> clause below turns into the error response.)  One \<open>try\<close> spans the whole body;
  its \<open>except\<close> clause builds the error response from the exception's message and the
  patient id.
\<close>

definition process_document ::
  "unified_pipeline \<Rightarrow> pystr \<Rightarrow> pystr \<Rightarrow> pystr \<Rightarrow> pystr
     \<Rightarrow> (response \<times> unified_pipeline) option" where
  "process_document self document_text doc_type patient_id language =
     (let work_text =
            (if language \<noteq> lit ''en''
             then translate (translator self) document_text language (lit ''en'')
             else document_text)
      in case add_ehr_document (embedding_engine self) (rag_pipeline self) work_text patient_id doc_type of
           None \<Rightarrow> None
         | Some (chunk_count, rag') \<Rightarrow>
             Some
               ((case extract_from_text (mistral_engine self) work_text language of
                   Inl e \<Rightarrow> Error (snd e) patient_id
                 | Inr extracted \<Rightarrow>
                 (case prepare_patient_data extracted of
                   Inl e \<Rightarrow> Error (snd e) patient_id
                 | Inr patient_data \<Rightarrow>
                 (case predict_risk (predictor self) patient_data of
                   Inl e \<Rightarrow> Error (snd e) patient_id
                 | Inr risk_prediction \<Rightarrow>
                 (case generate_explanation (mistral_engine self)
                         (risk_score risk_prediction)
                         (map fst (top_risk_factors risk_prediction))
                         patient_data language of
                   Inl e \<Rightarrow> Error (snd e) patient_id
                 | Inr explanation \<Rightarrow>
                     Success doc_type patient_id chunk_count extracted risk_prediction
                       (if language \<noteq> lit ''en''
                        then translate (translator self) explanation (lit ''en'') language
                        else explanation)
                       language)))),
                self\<lparr>rag_pipeline := rag'\<rparr>))"

section \<open>Chunking never returns on a non-empty text\<close>

text \<open>
  Whenever the loop of \<open>_chunk_text\<close> returns, its \<open>start\<close> was already at or past the end
  of the text: with a positive overlap every iteration leaves \<open>start\<close> below the length
  (\<open>start = end - overlap\<close> and \<open>end\<close> is at most the length), so an iteration is always
  followed by another one.
\<close>

lemma chunk_loop_returns_only_past_end:
  assumes ret: "chunk_loop cs ov txt start chunks = Some r"
  shows "0 < ov \<longrightarrow> \<not> start < int (length txt)"
proof (rule chunk_loop.raw_induct
    [where P = "\<lambda>cs ov txt start chunks r. 0 < ov \<longrightarrow> \<not> start < int (length txt)", OF _ ret])
  fix f :: "int \<Rightarrow> int \<Rightarrow> 'a list \<Rightarrow> int \<Rightarrow> 'a list list \<Rightarrow> 'a list list option"
  fix a b c d e y
  assume IH: "\<And>a b c d e y. f a b c d e = Some y \<Longrightarrow> 0 < b \<longrightarrow> \<not> d < int (length c)"
    and eq: "(if d < int (length c)
          then let stop = min (d + a) (int (length c)); chunk = py_slice c d stop
               in f a b c (stop - b) (e @ [chunk])
          else Some e) = Some y"
  show "0 < b \<longrightarrow> \<not> d < int (length c)"
  proof (intro impI notI)
    assume pos: "0 < b" and lt: "d < int (length c)"
    let ?stop = "min (d + a) (int (length c))"
    from eq lt have "f a b c (?stop - b) (e @ [py_slice c d ?stop]) = Some y"
      by (simp add: Let_def)
    from IH[OF this] pos have "\<not> ?stop - b < int (length c)" by simp
    with pos show False by simp
  qed
qed

lemma chunk_text_diverges:
  assumes "0 < chunk_overlap self" and "txt \<noteq> []"
  shows "chunk_text self txt = None"
proof (cases "chunk_text self txt")
  case None
  then show ?thesis .
next
  case (Some r)
  then have "chunk_loop (chunk_size self) (chunk_overlap self) txt 0 [] = Some r"
    by (simp add: chunk_text_def)
  from chunk_loop_returns_only_past_end[OF this] assms show ?thesis by simp
qed

lemma chunk_text_empty: "chunk_text self [] = Some []"
  by (simp add: chunk_text_def chunk_loop.simps)

text \<open>
  Claim C1 (\<open>_chunk_text\<close> terminates on every non-empty text and returns chunks of at most
  500 characters).  On the document of the specification's scenario, 1000 characters long,
  the pipeline with \<open>chunk_size = 500\<close> and \<open>chunk_overlap = 50\<close> never returns.
\<close>

theorem chunk_text_never_returns_two_chunk_sizes:
  "chunk_text (RAGPipeline_init faiss_importable) (replicate 1000 (97::nat)) = None"
  by (rule chunk_text_diverges) (simp_all add: RAGPipeline_init_def)

text \<open>
  Claim C2 (the chunks of a text, concatenated after the 50-character overlap is removed
  from every chunk but the first, give the text back).  On the text \<open>hello\<close> the call
  never returns, so there are no chunks to put together.
\<close>

theorem chunk_text_no_chunks_to_reconstruct:
  "map_option (spec_reconstruct 50) (chunk_text (RAGPipeline_init faiss_importable) (lit ''hello''))
     \<noteq> Some (lit ''hello'')"
proof -
  have never: "chunk_text (RAGPipeline_init faiss_importable) (lit ''hello'') = None"
    by (rule chunk_text_diverges) (simp_all add: RAGPipeline_init_def lit_def)
  show ?thesis unfolding never by simp
qed

section \<open>Preprocessing before fit\<close>

text \<open>
  Claim C9, as amended: \<open>transform\<close> on a preprocessor whose pipeline was never built
  fails with AttributeError, for every input and every behaviour of scikit-learn.
\<close>

theorem transform_before_fit_attribute_error:
  "raised_class (transform sk TriagePreprocessor_init X) = Some AttributeError"
  by (simp add: transform_def TriagePreprocessor_init_def raised_class_def)

text \<open>
  Claim C9 as stated (the failure is a ConfigurationError) is false on a one-row frame.
\<close>

theorem transform_before_fit_not_configuration_error:
  "raised_class
     (transform \<lparr>new_pipeline = (), sk_fit = (\<lambda>p X. Inr p), sk_transform = (\<lambda>p X. Inr [])\<rparr>
        TriagePreprocessor_init [[(lit ''age'', PNum 45)]])
   \<noteq> Some ConfigurationError"
  by (simp add: transform_def TriagePreprocessor_init_def raised_class_def)

section \<open>Translating into the same language, and translating without a model\<close>

text \<open>
  Claim C4, as amended: the translator of the accessibility service returns the text
  unchanged whenever source and target language are equal, whatever the state of its model
  and whether or not the language is supported.  The translator of \<open>ai_engine\<close> returns
  the text only when its model is initialised (or can be loaded) and the lower-cased
  language is a key of \<open>LANGUAGE_CODES\<close>; otherwise it returns \<open>None\<close>.
\<close>

theorem translate_same_language:
  "translate self text L L = text \<and>
   fst (translate_ai_engine lower backend initialized text L L) =
     (if (initialized \<or> load_ok backend) \<and> map_of LANGUAGE_CODES (lower L) \<noteq> None
      then Some text else None)"
proof -
  have codes_nonempty: "map_of LANGUAGE_CODES k \<noteq> Some []" for k
    by (simp add: LANGUAGE_CODES_def lit_def)
  have "fst (translate_ai_engine lower backend initialized text L L) =
     (if (initialized \<or> load_ok backend) \<and> map_of LANGUAGE_CODES (lower L) \<noteq> None
      then Some text else None)"
    using codes_nonempty [of "lower L"]
    by (auto simp add: translate_ai_engine_def initialize_def Let_def split: if_splits)
  then show ?thesis by (simp add: translate_def)
qed

text \<open>
  Claim C4 as stated (the text comes back whether or not the model loaded and whether or
  not the language is supported) is false for the translator of \<open>ai_engine\<close>: with a model
  that cannot be loaded, and with the unsupported code \<open>en\<close> on a loaded model, the call
  returns \<open>None\<close>.
\<close>

theorem translate_ai_engine_same_language_none:
  "fst (translate_ai_engine ascii_lower
          \<lparr>load_ok = False, run_model = (\<lambda>t s d. Inl (LibraryError, lit ''no model''))\<rparr>
          False (lit ''hello'') (lit ''english'') (lit ''english'')) = None
   \<and> fst (translate_ai_engine ascii_lower
          \<lparr>load_ok = True, run_model = (\<lambda>t s d. Inr t)\<rparr>
          True (lit ''hello'') (lit ''en'') (lit ''en'')) = None"
  by (simp add: translate_ai_engine_def initialize_def LANGUAGE_CODES_def lit_def
      ascii_lower_def)

text \<open>
  Claim C5, as amended.  The translator of the accessibility service (which cannot raise)
  returns the text unchanged when the target language is not supported, and, when its
  model is unavailable, for every pair of languages other than \<open>en\<close> to \<open>hi\<close> and \<open>en\<close> to
  \<open>ta\<close>; for these two pairs it returns the text with the words of its fallback vocabulary
  replaced.  The translator of \<open>ai_engine\<close> returns \<open>None\<close> when its model cannot be loaded
  and when the target language is not in its table.
\<close>

theorem translate_unsupported_or_unavailable:
  "(\<not> dict_has SUPPORTED_LANGUAGES tgt \<longrightarrow> translate self text src tgt = text) \<and>
   (\<not> model_loaded self \<and> (src, tgt) \<noteq> (lit ''en'', lit ''hi'')
      \<and> (src, tgt) \<noteq> (lit ''en'', lit ''ta'') \<longrightarrow> translate self text src tgt = text) \<and>
   (\<not> model_loaded self \<longrightarrow>
      translate self text (lit ''en'') (lit ''hi'') = fallback_translate text (lit ''en'') (lit ''hi'')
      \<and> translate self text (lit ''en'') (lit ''ta'') = fallback_translate text (lit ''en'') (lit ''ta'')) \<and>
   (\<not> initialized \<and> \<not> load_ok backend \<longrightarrow>
      translate_ai_engine lower backend initialized text src tgt = (None, False)) \<and>
   (map_of LANGUAGE_CODES (lower tgt) = None \<longrightarrow>
      fst (translate_ai_engine lower backend initialized text src tgt) = None)"
proof (intro conjI impI)
  assume "\<not> dict_has SUPPORTED_LANGUAGES tgt"
  then show "translate self text src tgt = text" by (simp add: translate_def)
next
  assume "\<not> model_loaded self \<and> (src, tgt) \<noteq> (lit ''en'', lit ''hi'')
      \<and> (src, tgt) \<noteq> (lit ''en'', lit ''ta'')"
  then show "translate self text src tgt = text"
    by (auto simp add: translate_def fallback_translate_def medical_vocab_def)
next
  assume "\<not> model_loaded self"
  then show "translate self text (lit ''en'') (lit ''hi'')
      = fallback_translate text (lit ''en'') (lit ''hi'')"
    by (simp add: translate_def dict_has_def SUPPORTED_LANGUAGES_def lit_def)
next
  assume "\<not> model_loaded self"
  then show "translate self text (lit ''en'') (lit ''ta'')
      = fallback_translate text (lit ''en'') (lit ''ta'')"
    by (simp add: translate_def dict_has_def SUPPORTED_LANGUAGES_def lit_def)
next
  assume "\<not> initialized \<and> \<not> load_ok backend"
  then show "translate_ai_engine lower backend initialized text src tgt = (None, False)"
    by (simp add: translate_ai_engine_def initialize_def)
next
  assume "map_of LANGUAGE_CODES (lower tgt) = None"
  then show "fst (translate_ai_engine lower backend initialized text src tgt) = None"
    by (simp add: translate_ai_engine_def initialize_def Let_def split: prod.splits)
qed

text \<open>
  The theorem for claim C5 at a concrete call: no model on either side, the text
  \<open>patient\<close>, from \<open>en\<close> to the unsupported code \<open>xx\<close>.
\<close>

theorem translate_unsupported_or_unavailable_witness:
  "\<not> dict_has SUPPORTED_LANGUAGES (lit ''xx'')
   \<and> translate \<lparr>model_loaded = False, indic_generate = (\<lambda>t. Inl (NameError, lit ''torch''))\<rparr>
        (lit ''patient'') (lit ''en'') (lit ''xx'') = lit ''patient''
   \<and> map_of LANGUAGE_CODES (ascii_lower (lit ''xx'')) = None
   \<and> translate_ai_engine ascii_lower
        \<lparr>load_ok = False, run_model = (\<lambda>t s d. Inl (LibraryError, lit ''no model''))\<rparr>
        False (lit ''patient'') (lit ''en'') (lit ''xx'') = (None, False)"
  using translate_unsupported_or_unavailable
    [of "lit ''xx''"
        "\<lparr>model_loaded = False, indic_generate = (\<lambda>t. Inl (NameError, lit ''torch''))\<rparr>"
        "lit ''patient''" "lit ''en''" False
        "\<lparr>load_ok = False, run_model = (\<lambda>t s d. Inl (LibraryError, lit ''no model''))\<rparr>"
        ascii_lower]
  by (simp add: dict_has_def SUPPORTED_LANGUAGES_def LANGUAGE_CODES_def ascii_lower_def lit_def)

text \<open>
  Claim C5 as stated (the original text comes back, as a string, whenever the model is
  unavailable) is false: without a model the accessibility translator turns \<open>patient\<close>,
  from \<open>en\<close> to \<open>hi\<close>, into the Hindi word of its vocabulary, and the translator of
  \<open>ai_engine\<close> returns \<open>None\<close>.
\<close>

theorem translate_without_model_changes_text:
  "translate \<lparr>model_loaded = False, indic_generate = (\<lambda>t. Inl (NameError, lit ''torch''))\<rparr>
     (lit ''patient'') (lit ''en'') (lit ''hi'') = [0x930, 0x94b, 0x917, 0x940]
   \<and> [0x930, 0x94b, 0x917, 0x940] \<noteq> lit ''patient''
   \<and> fst (translate_ai_engine ascii_lower
          \<lparr>load_ok = False, run_model = (\<lambda>t s d. Inl (LibraryError, lit ''no model''))\<rparr>
          False (lit ''patient'') (lit ''english'') (lit ''hindi'')) = None"
  by (simp add: translate_def fallback_translate_def medical_vocab_def dict_has_def
      SUPPORTED_LANGUAGES_def translate_ai_engine_def initialize_def lit_def)

section \<open>Similarity scores of a search\<close>

lemma set_py_slice: "set (py_slice xs a b) \<subseteq> set xs"
proof -
  have "set (take n (drop m xs)) \<subseteq> set xs" for n m
    using set_take_subset set_drop_subset by fast
  then show ?thesis by (simp add: py_slice_def Let_def)
qed

lemma score_loop_sound:
  "score_loop db q flt i embs acc = Inr out \<Longrightarrow> (j, s) \<in> set out \<Longrightarrow>
     (j, s) \<in> set acc \<or> (i \<le> j \<and> j < i + length embs \<and> np_dot q (embs ! (j - i)) = Inr s)"
proof (induction embs arbitrary: i acc)
  case Nil
  then show ?case by simp
next
  case (Cons doc_emb rest)
  from Cons.prems(1) obtain similarity acc' where
    dot: "np_dot q doc_emb = Inr similarity" and
    rec: "score_loop db q flt (Suc i) rest acc' = Inr out" and
    acc': "acc' = acc \<or> acc' = acc @ [(i, similarity)]"
    by (auto split: sum.splits if_splits)
  from Cons.IH[OF rec Cons.prems(2)] acc'
  consider "(j, s) \<in> set acc" | "(j, s) = (i, similarity)"
    | "Suc i \<le> j \<and> j < Suc i + length rest \<and> np_dot q (rest ! (j - Suc i)) = Inr s"
    by auto
  then show ?case
  proof cases
    case 1
    then show ?thesis by simp
  next
    case 2
    with dot show ?thesis by simp
  next
    case 3
    then have "(doc_emb # rest) ! (j - i) = rest ! (j - Suc i)"
      by (simp add: nth_Cons')
    with 3 show ?thesis by simp
  qed
qed

lemma simple_results_sound:
  "simple_results db scores = Inr rs \<Longrightarrow> r \<in> set rs \<Longrightarrow>
     \<exists>idx score. (idx, score) \<in> set scores \<and> res_id r = int idx \<and> res_similarity r = max 0 score"
proof (induction scores arbitrary: rs)
  case Nil
  then show ?case by simp
next
  case (Cons p rest)
  obtain idx score where p: "p = (idx, score)" by (cases p)
  from Cons.prems(1) p obtain doc_meta doc rs' where
    rec: "simple_results db rest = Inr rs'" and
    rs: "rs = \<lparr>res_id = int idx, res_text = py_slice doc 0 500, res_full_text = doc,
                res_similarity = max 0 score, res_metadata = doc_meta\<rparr> # rs'"
    by (auto split: sum.splits)
  from Cons.prems(2) rs consider "r = hd rs" | "r \<in> set rs'" by auto
  then show ?case
  proof cases
    case 1
    with rs p show ?thesis by auto
  next
    case 2
    from Cons.IH[OF rec 2] show ?thesis by auto
  qed
qed

lemma simple_search_sound:
  assumes "simple_search db q top_k flt = Inr rs" and "r \<in> set rs"
  shows "\<exists>s. 0 \<le> res_id r \<and> nat (res_id r) < length (embeddings db)
           \<and> np_dot q (embeddings db ! nat (res_id r)) = Inr s \<and> res_similarity r = max 0 s"
proof -
  from assms(1) obtain scores where
    sc: "score_loop db q flt 0 (embeddings db) [] = Inr scores" and
    res: "simple_results db (py_slice (sort_key (\<lambda>x. - snd x) scores) 0 top_k) = Inr rs"
    by (auto simp add: simple_search_def split: sum.splits)
  from simple_results_sound[OF res assms(2)] obtain idx score where
    mem: "(idx, score) \<in> set (py_slice (sort_key (\<lambda>x. - snd x) scores) 0 top_k)" and
    r: "res_id r = int idx" "res_similarity r = max 0 score"
    by blast
  from mem set_py_slice have "(idx, score) \<in> set scores" by fastforce
  from score_loop_sound[OF sc this]
  have "idx < length (embeddings db) \<and> np_dot q (embeddings db ! idx) = Inr score" by simp
  with r show ?thesis by simp
qed

lemma faiss_results_sound:
  "faiss_results db flt hits = Inr rs \<Longrightarrow> r \<in> set rs \<Longrightarrow>
     \<exists>d. (res_id r, d) \<in> set hits \<and> res_similarity r = 1 / (1 + d)"
proof (induction hits arbitrary: rs)
  case Nil
  then show ?case by simp
next
  case (Cons p rest)
  obtain idx dstance where p: "p = (idx, dstance)" by (cases p)
  show ?case
  proof (cases "faiss_results db flt rest = Inr rs")
    case True
    from Cons.IH[OF True Cons.prems(2)] show ?thesis by auto
  next
    case False
    with Cons.prems(1) p obtain doc_meta doc rs' where
      rec: "faiss_results db flt rest = Inr rs'" and
      rs: "rs = \<lparr>res_id = idx, res_text = py_slice doc 0 500, res_full_text = doc,
                  res_similarity = 1 / (1 + dstance), res_metadata = doc_meta\<rparr> # rs'"
      by (auto split: sum.splits if_splits)
    from Cons.prems(2) rs consider "r = hd rs" | "r \<in> set rs'" by auto
    then show ?thesis
    proof cases
      case 1
      with rs p show ?thesis by auto
    next
      case 2
      from Cons.IH[OF rec 2] show ?thesis by auto
    qed
  qed
qed

lemma l2_distance_squared: "(l2_distance a b)\<^sup>2 = squared_l2 a b"
proof -
  have "0 \<le> squared_l2 a b"
    unfolding squared_l2_def by (rule sum_list_nonneg) auto
  then show ?thesis by (simp add: l2_distance_def)
qed

lemma faiss_search_sound:
  assumes "faiss_search ix q k = Inr hits" and "(idx, dst) \<in> set hits"
    and "k \<le> int (length (index_xb ix))"
  shows "\<exists>i. idx = int i \<and> i < length (index_xb ix) \<and> dst = squared_l2 q (index_xb ix ! i)"
proof -
  let ?zs = "zip (map int [0..<length (index_xb ix)]) (map (squared_l2 q) (index_xb ix))"
  from assms(1) have hits: "hits = take (nat k) (sort_key snd ?zs)
      @ replicate (nat k - length (index_xb ix)) (- 1, FLT_MAX)"
    by (simp add: faiss_search_def split: if_splits)
  from assms(3) have "nat k - length (index_xb ix) = 0" by simp
  with hits have "hits = take (nat k) (sort_key snd ?zs)" by simp
  with assms(2) have "(idx, dst) \<in> set (sort_key snd ?zs)" by (auto dest: in_set_takeD)
  then have "(idx, dst) \<in> set ?zs" by simp
  then obtain n where n: "n < length ?zs" "?zs ! n = (idx, dst)"
    by (auto simp add: in_set_conv_nth)
  then have "idx = int n \<and> n < length (index_xb ix) \<and> dst = squared_l2 q (index_xb ix ! n)"
    by auto
  then show ?thesis by blast
qed

text \<open>
  What \<open>add_document\<close> leaves behind: the text and its embedding at the end of the lists,
  under the id returned, and, while FAISS is in use, an index that holds the stored
  embeddings.
\<close>

lemma add_document_index_current:
  assumes "add_document ext db text doc_type source md = (doc_id, db')"
  shows "doc_id = Some (length (documents db)) \<and> documents db' = documents db @ [text]
         \<and> embeddings db' = embeddings db @ [embed_text ext text]
         \<and> (use_faiss db' \<longrightarrow> (\<exists>ix. index db' = Some ix \<and> index_xb ix = embeddings db'))"
  using assms
  by (auto simp add: add_document_def Let_def build_index_def faiss_build_def
      split: sum.splits list.splits if_splits)

text \<open>
  Claim C7, as amended, for a database whose FAISS index, while FAISS is in use, holds the
  stored embeddings: every result of \<open>search\<close> is a stored document and carries, in the FAISS
  branch, the similarity \<open>1 / (1 + d\<^sup>2)\<close> for the Euclidean distance \<open>d\<close> between the query
  embedding and that document's embedding (the index reports squared distances), and in
  the fallback branch the dot product of the two embeddings, clipped below at 0.
\<close>

theorem search_similarity:
  assumes "r \<in> set (search ext db query top_k flt)"
    and "use_faiss db \<longrightarrow> (\<forall>ix. index db = Some ix \<longrightarrow> index_xb ix = embeddings db)"
  shows "\<exists>i. res_id r = int i \<and> i < length (embeddings db) \<and>
     res_similarity r =
       (if use_faiss db \<and> index db \<noteq> None
        then 1 / (1 + (l2_distance (embed_text ext query) (embeddings db ! i))\<^sup>2)
        else max 0 (sum_list (map2 (*) (embed_text ext query) (embeddings db ! i))))"
proof -
  let ?q = "embed_text ext query"
  have ne: "search ext db query top_k flt \<noteq> []" using assms(1) by auto
  then have nonempty: "embeddings db \<noteq> []" by (auto simp add: search_def)
  show ?thesis
  proof (cases "use_faiss db \<and> index db \<noteq> None")
    case True
    then obtain ix where ix: "index db = Some ix" and uf: "use_faiss db" by auto
    with assms(2) have xb: "index_xb ix = embeddings db" by simp
    let ?k = "min (top_k * 2) (int (length (embeddings db)))"
    from ix uf nonempty have unfolded: "search ext db query top_k flt =
        (case faiss_search ix ?q ?k of Inl e \<Rightarrow> []
         | Inr hits \<Rightarrow> (case faiss_results db flt hits of Inl e \<Rightarrow> []
                        | Inr results \<Rightarrow> py_slice results 0 top_k))"
      by (simp add: search_def Let_def)
    with assms(1) obtain hits results where
      h: "faiss_search ix ?q ?k = Inr hits" and
      fr: "faiss_results db flt hits = Inr results" and
      mem: "r \<in> set (py_slice results 0 top_k)"
      by (auto split: sum.splits)
    from mem set_py_slice have "r \<in> set results" by fastforce
    from faiss_results_sound[OF fr this] obtain dst where
      hit: "(res_id r, dst) \<in> set hits" and sim: "res_similarity r = 1 / (1 + dst)"
      by blast
    have "?k \<le> int (length (index_xb ix))" using xb by simp
    from faiss_search_sound[OF h hit this] xb obtain i where
      "res_id r = int i" "i < length (embeddings db)" "dst = squared_l2 ?q (embeddings db ! i)"
      by auto
    with sim True show ?thesis by (auto simp add: l2_distance_squared)
  next
    case False
    with nonempty have unfolded: "search ext db query top_k flt =
        (case simple_search db ?q top_k flt of Inl e \<Rightarrow> [] | Inr results \<Rightarrow> results)"
      by (auto simp add: search_def Let_def split: bool.splits option.splits)
    with assms(1) obtain results where
      ss: "simple_search db ?q top_k flt = Inr results" and mem: "r \<in> set results"
      by (auto split: sum.splits)
    from simple_search_sound[OF ss mem] obtain s where
      s: "0 \<le> res_id r" "nat (res_id r) < length (embeddings db)"
         "np_dot ?q (embeddings db ! nat (res_id r)) = Inr s" "res_similarity r = max 0 s"
      by blast
    from s(3) have "s = sum_list (map2 (*) ?q (embeddings db ! nat (res_id r)))"
      by (auto simp add: np_dot_def split: if_splits)
    with s False show ?thesis by (intro exI[of _ "nat (res_id r)"]) auto
  qed
qed

text \<open>
  The theorem for claim C7 at two concrete searches over two stored documents, one with
  the FAISS index and one without; the second document is among the results of each.
\<close>

theorem search_similarity_witness:
  "\<lparr>res_id = 1, res_text = lit ''b'', res_full_text = lit ''b'', res_similarity = 1 / 5,
     res_metadata = \<lparr>meta_id = 1, meta_type = lit ''medical'', meta_source = [], meta_length = 1,
              meta_metadata = []\<rparr>\<rparr>
    \<in> set (search \<lparr>flag_model = Some (\<lambda>t. Inr [1, 0]), sha256 = (\<lambda>t. replicate 32 0)\<rparr>
        \<lparr>use_faiss = True, documents = [lit ''a'', lit ''b''],
         embeddings = [[1, 0], [- 1, 0]],
         index = Some \<lparr>index_d = 2, index_xb = [[1, 0], [- 1, 0]]\<rparr>,
         metadata =
           [\<lparr>meta_id = 0, meta_type = lit ''medical'', meta_source = [], meta_length = 1,
              meta_metadata = []\<rparr>,
            \<lparr>meta_id = 1, meta_type = lit ''medical'', meta_source = [], meta_length = 1,
              meta_metadata = []\<rparr>]\<rparr>
        (lit ''q'') 5 None)
   \<and> (1 / 5 :: real) = 1 / (1 + (l2_distance [1, 0] [- 1, 0])\<^sup>2)
   \<and> \<lparr>res_id = 1, res_text = lit ''b'', res_full_text = lit ''b'', res_similarity = 0,
     res_metadata = \<lparr>meta_id = 1, meta_type = lit ''medical'', meta_source = [], meta_length = 1,
              meta_metadata = []\<rparr>\<rparr>
    \<in> set (search \<lparr>flag_model = Some (\<lambda>t. Inr [1, 0]), sha256 = (\<lambda>t. replicate 32 0)\<rparr>
        \<lparr>use_faiss = False, documents = [lit ''a'', lit ''b''],
         embeddings = [[1, 0], [- 1, 0]],
         index = None,
         metadata =
           [\<lparr>meta_id = 0, meta_type = lit ''medical'', meta_source = [], meta_length = 1,
              meta_metadata = []\<rparr>,
            \<lparr>meta_id = 1, meta_type = lit ''medical'', meta_source = [], meta_length = 1,
              meta_metadata = []\<rparr>]\<rparr>
        (lit ''q'') 5 None)
   \<and> (0 :: real) = max 0 (sum_list (map2 (*) [1, 0] [- 1, 0]))"
proof -
  let ?ext = "\<lparr>flag_model = Some (\<lambda>t. Inr [1, 0]), sha256 = (\<lambda>t. replicate 32 0)\<rparr>"
  let ?dbf = "\<lparr>use_faiss = True, documents = [lit ''a'', lit ''b''],
         embeddings = [[1, 0], [- 1, 0]],
         index = Some \<lparr>index_d = 2, index_xb = [[1, 0], [- 1, 0]]\<rparr>,
         metadata =
           [\<lparr>meta_id = 0, meta_type = lit ''medical'', meta_source = [], meta_length = 1,
              meta_metadata = []\<rparr>,
            \<lparr>meta_id = 1, meta_type = lit ''medical'', meta_source = [], meta_length = 1,
              meta_metadata = []\<rparr>]\<rparr>"
  let ?dbs = "\<lparr>use_faiss = False, documents = [lit ''a'', lit ''b''],
         embeddings = [[1, 0], [- 1, 0]],
         index = None,
         metadata =
           [\<lparr>meta_id = 0, meta_type = lit ''medical'', meta_source = [], meta_length = 1,
              meta_metadata = []\<rparr>,
            \<lparr>meta_id = 1, meta_type = lit ''medical'', meta_source = [], meta_length = 1,
              meta_metadata = []\<rparr>]\<rparr>"
  let ?r5 = "\<lparr>res_id = 1, res_text = lit ''b'', res_full_text = lit ''b'', res_similarity = 1 / 5,
     res_metadata = \<lparr>meta_id = 1, meta_type = lit ''medical'', meta_source = [], meta_length = 1,
              meta_metadata = []\<rparr>\<rparr>"
  let ?r0 = "\<lparr>res_id = 1, res_text = lit ''b'', res_full_text = lit ''b'', res_similarity = 0,
     res_metadata = \<lparr>meta_id = 1, meta_type = lit ''medical'', meta_source = [], meta_length = 1,
              meta_metadata = []\<rparr>\<rparr>"
  have memf: "?r5 \<in> set (search ?ext ?dbf (lit ''q'') 5 None)"
    by (simp add: search_def embed_text_def faiss_search_def squared_l2_def py_index_def
        filtered_out_def py_slice_def lit_def)
  have mems: "?r0 \<in> set (search ?ext ?dbs (lit ''q'') 5 None)"
    by (simp add: search_def embed_text_def simple_search_def np_dot_def py_index_def
        filtered_out_def py_slice_def lit_def)
  have stepf: "use_faiss ?dbf \<longrightarrow> (\<forall>ix. index ?dbf = Some ix \<longrightarrow> index_xb ix = embeddings ?dbf)"
    by simp
  have steps: "use_faiss ?dbs \<longrightarrow> (\<forall>ix. index ?dbs = Some ix \<longrightarrow> index_xb ix = embeddings ?dbs)"
    by simp
  from search_similarity [OF memf stepf] search_similarity [OF mems steps] memf mems
  show ?thesis by (simp add: embed_text_def)
qed

text \<open>
  Claim C7 as stated (the similarity is \<open>1 / (1 + d)\<close> for the Euclidean distance \<open>d\<close>, in
  both paths) is false in both: for the query embedding \<open>(1, 0)\<close> and the stored embeddings
  \<open>(1, 0)\<close> and \<open>(-1, 0)\<close>, at distances 0 and 2, the FAISS branch reports the
  similarities 1 and 1/5 and the fallback branch 1 and 0, where the formula gives 1 and
  1/3.
\<close>

theorem search_similarity_is_not_one_over_one_plus_distance:
  "map res_similarity
     (search \<lparr>flag_model = Some (\<lambda>t. Inr [1, 0]), sha256 = (\<lambda>t. replicate 32 0)\<rparr>
        \<lparr>use_faiss = True, documents = [lit ''a'', lit ''b''],
         embeddings = [[1, 0], [- 1, 0]],
         index = Some \<lparr>index_d = 2, index_xb = [[1, 0], [- 1, 0]]\<rparr>,
         metadata =
           [\<lparr>meta_id = 0, meta_type = lit ''medical'', meta_source = [], meta_length = 1,
              meta_metadata = []\<rparr>,
            \<lparr>meta_id = 1, meta_type = lit ''medical'', meta_source = [], meta_length = 1,
              meta_metadata = []\<rparr>]\<rparr>
        (lit ''q'') 5 None) = [1, 1 / 5]
   \<and> map res_similarity
     (search \<lparr>flag_model = Some (\<lambda>t. Inr [1, 0]), sha256 = (\<lambda>t. replicate 32 0)\<rparr>
        \<lparr>use_faiss = False, documents = [lit ''a'', lit ''b''],
         embeddings = [[1, 0], [- 1, 0]],
         index = None,
         metadata =
           [\<lparr>meta_id = 0, meta_type = lit ''medical'', meta_source = [], meta_length = 1,
              meta_metadata = []\<rparr>,
            \<lparr>meta_id = 1, meta_type = lit ''medical'', meta_source = [], meta_length = 1,
              meta_metadata = []\<rparr>]\<rparr>
        (lit ''q'') 5 None) = [1, 0]
   \<and> map (\<lambda>e. 1 / (1 + l2_distance [1, 0] e)) [[1, 0], [- 1, 0]] = [1, 1 / 3]"
  by (simp add: search_def embed_text_def faiss_search_def squared_l2_def simple_search_def
      np_dot_def py_index_def filtered_out_def py_slice_def l2_distance_def lit_def)

section \<open>Searching for a document that was just added\<close>

lemma length_fallback_embed: "length (fallback_embed eng t) = 384"
  by (simp add: fallback_embed_def Let_def)

text \<open>
  Claim C6 (a document is found, and ranked first, by a search with its own text right
  after it was added).  The model is loaded and embeds the documents \<open>a\<close> and \<open>b\<close> into
  1024 dimensions (those of BAAI/bge-m3), and raises on the text \<open>c\<close>, so that
  \<open>embed_text\<close> answers with the hash embedding of 384 dimensions, for the document and for
  the query alike.  \<open>add_document\<close> returns the id 2 and stores the text; the stored
  embeddings no longer have one dimension, \<open>_build_index\<close> fails and switches FAISS off,
  \<open>np.dot\<close> raises on the first stored embedding, and \<open>search\<close> returns the empty list,
  whatever the digests are.
\<close>

theorem search_misses_document_embedded_by_fallback:
  "(let eng = \<lparr>flag_model = Some (\<lambda>t. if t = lit ''c'' then Inl (LibraryError, lit ''out of memory'')
                       else if t = lit ''a'' then Inr (1 # replicate 1023 0)
                       else Inr (0 # 1 # replicate 1022 0)),
               sha256 = digest\<rparr>;
        db1 = snd (add_document eng (VectorDatabase_init True) (lit ''a'') (lit ''medical'') [] None);
        db2 = snd (add_document eng db1 (lit ''b'') (lit ''medical'') [] None);
        added = add_document eng db2 (lit ''c'') (lit ''medical'') [] None
    in fst added = Some 2 \<and> documents (snd added) = [lit ''a'', lit ''b'', lit ''c'']
       \<and> search eng (snd added) (lit ''c'') 5 None = [])"
  by (simp add: Let_def add_document_def build_index_def faiss_build_def embed_text_def
      VectorDatabase_init_def search_def simple_search_def np_dot_def length_fallback_embed
      lit_def)

section \<open>Explaining without an explainer\<close>

text \<open>
  Claim C8, as amended, for a \<open>TriageExplainer\<close> that holds no explainer.  When the model
  file is absent, \<open>explain_prediction\<close> returns the empty dictionary unless reading the
  feature names raises; when the model was loaded earlier and no explainer came of it,
  it returns the empty dictionary; when \<open>joblib.load\<close> of the model raises, or the SHAP
  constructor raises, that exception reaches the caller.
\<close>

theorem explain_prediction_without_explainer:
  "(explainer a = None \<and> risk_model a = None \<and> model_file env_a = None \<longrightarrow>
      fst (explain_prediction env_a a X_a k_a) =
        (case feature_file env_a of Some (Inl e) \<Rightarrow> Inl e | _ \<Rightarrow> Inr None)) \<and>
   (explainer b = None \<and> risk_model b \<noteq> None \<longrightarrow>
      fst (explain_prediction env_b b X_b k_b) = Inr None) \<and>
   (explainer c = None \<and> risk_model c = None \<and> model_file env_c = Some (Inl e_c) \<longrightarrow>
      fst (explain_prediction env_c c X_c k_c) = Inl e_c) \<and>
   (explainer d = None \<and> risk_model d = None \<and> model_file env_d = Some (Inr m) \<and>
    (if has_get_booster env_d m then tree_explainer env_d m else generic_explainer env_d m)
      = Inl e_d \<longrightarrow>
      fst (explain_prediction env_d d X_d k_d) = Inl e_d)"
proof (intro conjI impI)
  assume "explainer a = None \<and> risk_model a = None \<and> model_file env_a = None"
  then show "fst (explain_prediction env_a a X_a k_a) =
        (case feature_file env_a of Some (Inl e) \<Rightarrow> Inl e | _ \<Rightarrow> Inr None)"
    by (auto simp add: explain_prediction_def load_explainer_def load_feature_names_def
        split: option.splits sum.splits)
next
  assume "explainer b = None \<and> risk_model b \<noteq> None"
  then show "fst (explain_prediction env_b b X_b k_b) = Inr None"
    by (auto simp add: explain_prediction_def load_explainer_def)
next
  assume "explainer c = None \<and> risk_model c = None \<and> model_file env_c = Some (Inl e_c)"
  then show "fst (explain_prediction env_c c X_c k_c) = Inl e_c"
    by (auto simp add: explain_prediction_def load_explainer_def)
next
  assume "explainer d = None \<and> risk_model d = None \<and> model_file env_d = Some (Inr m) \<and>
    (if has_get_booster env_d m then tree_explainer env_d m else generic_explainer env_d m)
      = Inl e_d"
  then show "fst (explain_prediction env_d d X_d k_d) = Inl e_d"
    by (auto simp add: explain_prediction_def load_explainer_def Let_def)
qed

text \<open>
  The theorem for claim C8 at four concrete explainers: a new one with no file on disk,
  one whose model is loaded, a new one whose model file is corrupt, and a new one whose
  model SHAP rejects.
\<close>

theorem explain_prediction_without_explainer_witness:
  "fst (explain_prediction
       \<lparr>model_file = None, feature_file = None,
        has_get_booster = (\<lambda>m::unit. True), tree_explainer = (\<lambda>m. Inr ()),
        generic_explainer = (\<lambda>m. Inr ()), shap_values_of = (\<lambda>ex X. Inr (Array X)),
        np_argsort = (\<lambda>xs. [])\<rparr>
       TriageExplainer_init [[0]] 5) = Inr None
   \<and> fst (explain_prediction
       \<lparr>model_file = None, feature_file = None,
        has_get_booster = (\<lambda>m::unit. True), tree_explainer = (\<lambda>m. Inr ()),
        generic_explainer = (\<lambda>m. Inr ()), shap_values_of = (\<lambda>ex X. Inr (Array X)),
        np_argsort = (\<lambda>xs. [])\<rparr>
       \<lparr>risk_model = Some (), explainer = None, feature_names = None\<rparr> [[0]] 5) = Inr None
   \<and> fst (explain_prediction
       \<lparr>model_file = Some (Inl (LibraryError, lit ''corrupt file'')), feature_file = None,
        has_get_booster = (\<lambda>m::unit. True), tree_explainer = (\<lambda>m. Inr ()),
        generic_explainer = (\<lambda>m. Inr ()), shap_values_of = (\<lambda>ex X. Inr (Array X)),
        np_argsort = (\<lambda>xs. [])\<rparr>
       TriageExplainer_init [[0]] 5) = Inl (LibraryError, lit ''corrupt file'')
   \<and> fst (explain_prediction
       \<lparr>model_file = Some (Inr ()), feature_file = None,
        has_get_booster = (\<lambda>m::unit. True), tree_explainer = (\<lambda>m. Inl (LibraryError, lit ''model not supported'')),
        generic_explainer = (\<lambda>m. Inr ()), shap_values_of = (\<lambda>ex X. Inr (Array X)),
        np_argsort = (\<lambda>xs. [])\<rparr>
       TriageExplainer_init [[0]] 5) = Inl (LibraryError, lit ''model not supported'')"
  using explain_prediction_without_explainer
    [of "TriageExplainer_init"
        "\<lparr>model_file = None, feature_file = None,
        has_get_booster = (\<lambda>m::unit. True), tree_explainer = (\<lambda>m. Inr ()),
        generic_explainer = (\<lambda>m. Inr ()), shap_values_of = (\<lambda>ex X. Inr (Array X)),
        np_argsort = (\<lambda>xs. [])\<rparr>" "[[0]]" 5
        "\<lparr>risk_model = Some (), explainer = None, feature_names = None\<rparr>"
        "\<lparr>model_file = None, feature_file = None,
        has_get_booster = (\<lambda>m::unit. True), tree_explainer = (\<lambda>m. Inr ()),
        generic_explainer = (\<lambda>m. Inr ()), shap_values_of = (\<lambda>ex X. Inr (Array X)),
        np_argsort = (\<lambda>xs. [])\<rparr>" "[[0]]" 5
        "TriageExplainer_init"
        "\<lparr>model_file = Some (Inl (LibraryError, lit ''corrupt file'')), feature_file = None,
        has_get_booster = (\<lambda>m::unit. True), tree_explainer = (\<lambda>m. Inr ()),
        generic_explainer = (\<lambda>m. Inr ()), shap_values_of = (\<lambda>ex X. Inr (Array X)),
        np_argsort = (\<lambda>xs. [])\<rparr>" "(LibraryError, lit ''corrupt file'')" "[[0]]" 5
        "TriageExplainer_init"
        "\<lparr>model_file = Some (Inr ()), feature_file = None,
        has_get_booster = (\<lambda>m::unit. True), tree_explainer = (\<lambda>m. Inl (LibraryError, lit ''model not supported'')),
        generic_explainer = (\<lambda>m. Inr ()), shap_values_of = (\<lambda>ex X. Inr (Array X)),
        np_argsort = (\<lambda>xs. [])\<rparr>" "()" "(LibraryError, lit ''model not supported'')" "[[0]]" 5]
  by (simp add: TriageExplainer_init_def)

text \<open>
  Claim C8 as stated (no exception reaches the caller, also when the lazy
  \<open>load_explainer\<close> step fails) is false: with a model file that \<open>joblib.load\<close> cannot read,
  \<open>explain_prediction\<close> ends with that exception and returns nothing.
\<close>

theorem explain_prediction_raises_when_load_fails:
  "fst (explain_prediction
       \<lparr>model_file = Some (Inl (LibraryError, lit ''corrupt file'')), feature_file = None,
        has_get_booster = (\<lambda>m::unit. True), tree_explainer = (\<lambda>m. Inr ()),
        generic_explainer = (\<lambda>m. Inr ()), shap_values_of = (\<lambda>ex X. Inr (Array X)),
        np_argsort = (\<lambda>xs. [])\<rparr>
       TriageExplainer_init [[1, 2]] 5) \<noteq> Inr None"
  by (simp add: explain_prediction_def load_explainer_def TriageExplainer_init_def)

section \<open>Risk prediction and its fallback\<close>

text \<open>
  Whatever \<open>_fallback_risk\<close> and \<open>predict_risk\<close> return has a score between 0 and 1, the
  level of that score, and the larger of the score and its complement as confidence.
\<close>

lemma fallback_risk_result:
  "fallback_risk patient_data = Inr r \<Longrightarrow>
     0 \<le> risk_score r \<and> risk_score r \<le> 1 \<and> risk_level r = classify_risk (risk_score r)
     \<and> confidence r = max (risk_score r) (1 - risk_score r)"
  by (auto simp add: fallback_risk_def np_clip01_def Let_def split: sum.splits)

lemma predict_risk_result:
  "predict_risk self patient_data = Inr r \<Longrightarrow>
     0 \<le> risk_score r \<and> risk_score r \<le> 1 \<and> risk_level r = classify_risk (risk_score r)
     \<and> confidence r = max (risk_score r) (1 - risk_score r)"
  by (auto simp add: predict_risk_def np_clip01_def Let_def dest!: fallback_risk_result
      split: sum.splits)

text \<open>
  Claim C10 (\<open>predict_risk\<close> never raises).  With the regressor of \<open>_init_default_model\<close>,
  which was never fitted and so raises in \<open>predict\<close>, and the patient dictionary
  \<open>{'age': None}\<close>, \<open>prepare_features\<close> replaces the \<open>None\<close> by 0, the model raises, and
  \<open>_fallback_risk\<close> compares \<open>None > 65\<close>: the call ends with a TypeError.
\<close>

theorem predict_risk_raises_on_none_age:
  "raised_class (predict_risk
     \<lparr>model_predict = (\<lambda>X. Inl (NotFittedError, lit ''need to call fit'')),
      model_feature_importances = Inl (NotFittedError, lit ''need to call fit''),
      argsort = (\<lambda>xs. []), float_of_str = (\<lambda>s. None)\<rparr>
     [(lit ''age'', PNone)]) = Some TypeError"
  by (simp add: predict_risk_def prepare_features_def feature_set_def dict_get_def py_float_def
      fallback_risk_def py_num_def raised_class_def lit_def)

section \<open>A failure of the narrative stage\<close>

lemma add_ehr_document_empty:
  "add_ehr_document ext self [] patient_id source = Some (0, self)"
  by (simp add: add_ehr_document_def chunk_text_def chunk_loop.simps)

lemma prepare_patient_data_empty:
  "prepare_patient_data [] =
     Inr [(lit ''age'', PNum 50), (lit ''heart_rate'', PNum 70), (lit ''systolic_bp'', PNum 120),
          (lit ''diastolic_bp'', PNum 80), (lit ''temperature'', PNum 37), (lit ''spo2'', PNum 98),
          (lit ''respiratory_rate'', PNum 16), (lit ''glucose'', PNum 100),
          (lit ''comorbidity_count'', PNum 0), (lit ''medication_count'', PNum 0),
          (lit ''previous_hospitalizations'', PNum 0), (lit ''days_since_last_visit'', PNum 0),
          (lit ''abnormal_lab_count'', PNum 0)]"
  by (simp add: prepare_patient_data_def dict_get_def py_get_def py_len_def)

text \<open>
  When the narrative stage returns a string, as the \<open>try\<close> of \<open>generate_explanation\<close>
  makes it do when the chat client fails, the response carries the risk prediction.  With
  the engine of the source the prompt raises before that \<open>try\<close>, and no response ever
  carries a risk prediction.
\<close>

lemma process_document_keeps_prediction_when_narrative_returns:
  assumes "work_text = (if language \<noteq> lit ''en''
             then translate (translator self) document_text language (lit ''en'')
             else document_text)"
    and "add_ehr_document (embedding_engine self) (rag_pipeline self) work_text patient_id doc_type
           = Some (chunk_count, rag')"
    and "extract_from_text (mistral_engine self) work_text language = Inr extracted"
    and "prepare_patient_data extracted = Inr patient_data"
    and "predict_risk (predictor self) patient_data = Inr risk"
    and "generate_explanation (mistral_engine self) (risk_score risk)
           (map fst (top_risk_factors risk)) patient_data language = Inr explanation"
  shows "map_option (response_risk_prediction \<circ> fst)
           (process_document self document_text doc_type patient_id language) = Some (Some risk)"
  using assms by (simp add: process_document_def Let_def)

lemma process_document_of_source_never_succeeds:
  assumes "mistral_engine self = MistralMedicalEngine llm_extract"
  shows "map_option (response_risk_prediction \<circ> fst)
           (process_document self document_text doc_type patient_id language) \<noteq> Some (Some risk)"
  using assms
  by (auto simp add: process_document_def Let_def MistralMedicalEngine_def
      split: option.splits sum.splits prod.splits)

text \<open>
  Claim C3 (when the risk prediction succeeds and the narrative stage raises, the
  response still carries the risk prediction).  On a document without text, as
  \<open>process_pdf_content\<close> passes it on for a PDF that has none, in English and with a fitted
  regressor that predicts 0.9, the risk prediction is computed, the prompt of
  \<open>generate_explanation\<close> raises TypeError, and \<open>process_document\<close> returns the error
  response, made of that message and the patient id.
\<close>

theorem process_document_discards_risk_prediction:
  "predict_risk \<lparr>model_predict = (\<lambda>X. Inr 0.9), model_feature_importances = Inr [],
          argsort = (\<lambda>xs. []), float_of_str = (\<lambda>s. None)\<rparr>
     (projr (prepare_patient_data []))
     = Inr \<lparr>risk_score = 0.9, risk_level = lit ''CRITICAL'', top_risk_factors = [],
            confidence = 0.9, result_method = None\<rparr>
   \<and> map_option fst
     (process_document
        \<lparr>embedding_engine = \<lparr>flag_model = None, sha256 = (\<lambda>t. replicate 32 0)\<rparr>,
         mistral_engine = MistralMedicalEngine (\<lambda>t l. []),
         predictor = \<lparr>model_predict = (\<lambda>X. Inr 0.9), model_feature_importances = Inr [],
                       argsort = (\<lambda>xs. []), float_of_str = (\<lambda>s. None)\<rparr>,
         rag_pipeline = RAGPipeline_init False,
         translator = \<lparr>model_loaded = False, indic_generate = (\<lambda>t. Inr t)\<rparr>\<rparr>
        [] (lit ''pdf'') (lit ''p1'') (lit ''en''))
     = Some (Error (lit ''unhashable type: '' @ [39] @ lit ''dict'' @ [39]) (lit ''p1''))"
  by (simp add: process_document_def add_ehr_document_empty MistralMedicalEngine_def
       prepare_patient_data_empty predict_risk_def prepare_features_def feature_set_def
       dict_get_def py_float_def np_clip01_def classify_risk_def get_feature_importance_def
       py_slice_def lit_def Let_def)

end
